theory Spec2Isabelle
  imports Complex_Main
begin

unbundle bit_operations_syntax

section \<open>The numbers of the language\<close>

text \<open>
  A JavaScript number is an IEEE 754 double: a finite value (a rational here), an
  infinity or \<^verbatim>\<open>NaN\<close>. An operation gives the exact result rounded to the nearest
  double, ties to the even mantissa; a result beyond the largest double is an infinity.
  The two zeros are one value here: the code below divides only by a length, and a
  comparison does not tell the zeros apart.
\<close>

datatype double = Finite rat | PosInf | NegInf | NaN

definition pow2 :: "int \<Rightarrow> rat" where
  "pow2 k = (if 0 \<le> k then of_int (2 ^ nat k) else 1 / of_int (2 ^ nat (- k)))"

text \<open>\<open>ilog2 n\<close> is the position of the leading bit of \<open>n\<close>, for \<open>n\<close> from 1 on.\<close>

function ilog2 :: "int \<Rightarrow> int" where
  "ilog2 n = (if n < 2 then 0 else ilog2 (n div 2) + 1)"
  by pat_completeness auto
termination
  by (relation "measure nat") auto

text \<open>The exponent \<open>e\<close> of a positive rational \<open>a\<close>: \<open>2 ^ e \<le> a < 2 ^ (e + 1)\<close>.\<close>

definition exponent :: "rat \<Rightarrow> int" where
  "exponent a =
     (let (n, d) = quotient_of a;
          e0 = ilog2 n - ilog2 d
      in if pow2 e0 \<le> a then e0 else e0 - 1)"

definition round_half_even :: "rat \<Rightarrow> int" where
  "round_half_even m =
     (let f = \<lfloor>m\<rfloor>; r = m - of_int f
      in if r < 1 / 2 then f
         else if 1 / 2 < r then f + 1
         else if even f then f else f + 1)"

text \<open>
  Rounding to a double: 53 bits of mantissa at the exponent of the value, the exponent
  not below -1022 (below it the doubles are evenly spaced), overflow from
  \<open>2 ^ 1024\<close> on.
\<close>

definition round_double :: "rat \<Rightarrow> double" where
  "round_double q =
     (if q = 0 then Finite 0
      else
        (let a = \<bar>q\<bar>;
             e = max (exponent a) (- 1022);
             ulp = pow2 (e - 52);
             v = of_int (round_half_even (a / ulp)) * ulp
         in if pow2 1024 \<le> v then (if 0 < q then PosInf else NegInf)
            else Finite (if 0 < q then v else - v)))"

text \<open>
  The integer square root, and the double nearest to the square root of a positive
  rational: the mantissa is found from the integer square root of the value scaled by
  the square of the unit in the last place.
\<close>

function isqrt :: "int \<Rightarrow> int" where
  "isqrt n =
     (if n < 2 then max 0 n
      else (let r = 2 * isqrt (n div 4) in if (r + 1) * (r + 1) \<le> n then r + 1 else r))"
  by pat_completeness auto
termination
  by (relation "measure nat") auto

definition sqrt_double :: "rat \<Rightarrow> double" where
  "sqrt_double q =
     (let e = exponent q div 2;
          ulp = pow2 (e - 52);
          t = q / (ulp * ulp);
          m = isqrt \<lfloor>t\<rfloor>;
          h = (of_int m + 1 / 2) * (of_int m + 1 / 2);
          r = (if t < h then m else if h < t then m + 1 else if even m then m else m + 1)
      in Finite (of_int r * ulp))"

text \<open>
  The operations the flap detector uses: \<^verbatim>\<open>a + b\<close>, \<^verbatim>\<open>a - b\<close>,
  \<^verbatim>\<open>Math.pow(a, 2)\<close> (the product of \<open>a\<close> with itself, rounded once),
  \<^verbatim>\<open>a / n\<close> for a length \<open>n\<close>, \<^verbatim>\<open>Math.sqrt(a)\<close> and \<^verbatim>\<open>a < b\<close>.
\<close>

fun fl_add :: "double \<Rightarrow> double \<Rightarrow> double" where
  "fl_add (Finite x) (Finite y) = round_double (x + y)"
| "fl_add NaN b = NaN"
| "fl_add a NaN = NaN"
| "fl_add PosInf NegInf = NaN"
| "fl_add NegInf PosInf = NaN"
| "fl_add PosInf b = PosInf"
| "fl_add NegInf b = NegInf"
| "fl_add a PosInf = PosInf"
| "fl_add a NegInf = NegInf"

fun fl_neg :: "double \<Rightarrow> double" where
  "fl_neg (Finite x) = Finite (- x)"
| "fl_neg PosInf = NegInf"
| "fl_neg NegInf = PosInf"
| "fl_neg NaN = NaN"

definition fl_sub :: "double \<Rightarrow> double \<Rightarrow> double" where
  "fl_sub a b = fl_add a (fl_neg b)"

fun fl_square :: "double \<Rightarrow> double" where
  "fl_square (Finite x) = round_double (x * x)"
| "fl_square PosInf = PosInf"
| "fl_square NegInf = PosInf"
| "fl_square NaN = NaN"

fun fl_div_length :: "double \<Rightarrow> nat \<Rightarrow> double" where
  "fl_div_length (Finite x) n =
     (if n = 0 then (if x = 0 then NaN else if 0 < x then PosInf else NegInf)
      else round_double (x / of_nat n))"
| "fl_div_length PosInf n = PosInf"
| "fl_div_length NegInf n = NegInf"
| "fl_div_length NaN n = NaN"

fun fl_sqrt :: "double \<Rightarrow> double" where
  "fl_sqrt (Finite x) = (if x < 0 then NaN else if x = 0 then Finite 0 else sqrt_double x)"
| "fl_sqrt PosInf = PosInf"
| "fl_sqrt NegInf = NaN"
| "fl_sqrt NaN = NaN"

fun fl_less :: "double \<Rightarrow> double \<Rightarrow> bool" where
  "fl_less (Finite x) (Finite y) = (x < y)"
| "fl_less NaN b = False"
| "fl_less a NaN = False"
| "fl_less PosInf b = False"
| "fl_less NegInf NegInf = False"
| "fl_less NegInf b = True"
| "fl_less (Finite x) PosInf = True"
| "fl_less (Finite x) NegInf = False"

section \<open>Flap detector (relay/connectivity.ts, isFlapping)\<close>

text \<open>
  The durations are differences of two \<^verbatim>\<open>Date.now()\<close> readings, that is whole
  milliseconds, held as numbers. \<^verbatim>\<open>durations.reduce((a, b) => a + b, 0)\<close> is a left
  fold from 0. For the empty list \<^verbatim>\<open>sum / durations.length\<close> is \<^verbatim>\<open>0 / 0\<close>, which is
  \<^verbatim>\<open>NaN\<close>, and so are the variance and its square root; \<^verbatim>\<open>NaN < 1000\<close> is false.
\<close>

definition reduce_add :: "double list \<Rightarrow> double" where
  "reduce_add xs = foldl (\<lambda>a b. fl_add a b) (Finite 0) xs"

definition isFlapping_durations :: "int list \<Rightarrow> bool" where
  "isFlapping_durations durations =
     (if length durations mod 3 \<noteq> 0 then False
      else
        (let xs = map (\<lambda>x. round_double (of_int x)) durations;
             sum = reduce_add xs;
             avg = fl_div_length sum (length durations);
             variance =
               fl_div_length (reduce_add (map (\<lambda>x. fl_square (fl_sub x avg)) xs))
                 (length durations);
             stdDev = fl_sqrt variance
         in fl_less stdDev (Finite 1000)))"



fun fl_sum_from :: "double \<Rightarrow> double list \<Rightarrow> double" where
  "fl_sum_from acc [] = acc"
| "fl_sum_from acc (x # xs) = fl_sum_from (fl_add acc x) xs"

definition fl_mean :: "double list \<Rightarrow> double" where
  "fl_mean xs = fl_div_length (fl_sum_from (Finite 0) xs) (length xs)"

definition fl_population_stddev :: "int list \<Rightarrow> double" where
  "fl_population_stddev ds =
     fl_sqrt
       (fl_div_length
          (fl_sum_from (Finite 0)
             (map (\<lambda>x. fl_square (fl_sub (round_double (of_int x))
                                     (fl_mean (map (\<lambda>y. round_double (of_int y)) ds)))) ds))
          (length ds))"

section \<open>JavaScript values\<close>

text \<open>
  The value \<^verbatim>\<open>JSON.parse\<close> returns. A property that is missing reads as
  \<^verbatim>\<open>undefined\<close>, which is \<open>None\<close> of \<open>js\<close>. An object keeps its members in
  the order of the text; where a key is repeated the last member wins.
\<close>

datatype json =
    JNull
  | JBool bool
  | JNum rat
  | JStr string
  | JArr "json list"
  | JObj "(string \<times> json) list"

type_synonym js = "json option"

text \<open>
  What the code of the connection can throw or catch: the \<^verbatim>\<open>SyntaxError\<close> of
  \<^verbatim>\<open>JSON.parse\<close>, the \<^verbatim>\<open>TypeError\<close> of a property read on \<^verbatim>\<open>undefined\<close> or
  \<^verbatim>\<open>null\<close> and of a call of something that is no function, an \<^verbatim>\<open>Error\<close>
  with its message, and the \<^verbatim>\<open>new Error(v)\<close> made of a value \<open>v\<close> of a frame.
\<close>

datatype exn = SyntaxError | TypeError | Error string | ErrorOf js

fun truthy :: "js \<Rightarrow> bool" where
  "truthy None = False"
| "truthy (Some JNull) = False"
| "truthy (Some (JBool b)) = b"
| "truthy (Some (JNum q)) = (q \<noteq> 0)"
| "truthy (Some (JStr t)) = (t \<noteq> [])"
| "truthy (Some (JArr xs)) = True"
| "truthy (Some (JObj kvs)) = True"

text \<open>A number that may be \<^verbatim>\<open>undefined\<close>, in a condition: 0 is falsy.\<close>

fun truthy_num :: "int option \<Rightarrow> bool" where
  "truthy_num None = False"
| "truthy_num (Some n) = (n \<noteq> 0)"

text \<open>
  \<^verbatim>\<open>data[i]\<close> for \<open>i\<close> from 0 to 3, the indices the message handler reads. On
  \<^verbatim>\<open>null\<close> the read throws; the handler's first read, \<^verbatim>\<open>data[0]\<close>, is where that
  happens, so the reads after it are on a value that is not \<^verbatim>\<open>null\<close>. An array
  gives its element, a string its character, an object the member whose key is the
  index in decimal, a number or a boolean \<^verbatim>\<open>undefined\<close>.
\<close>

definition index_key :: "nat \<Rightarrow> string" where
  "index_key i = (if i = 0 then ''0'' else if i = 1 then ''1'' else if i = 2 then ''2'' else ''3'')"

definition js_index :: "json \<Rightarrow> nat \<Rightarrow> exn + js" where
  "js_index data i =
     (case data of
        JNull \<Rightarrow> Inl TypeError
      | JArr xs \<Rightarrow> Inr (if i < length xs then Some (xs ! i) else None)
      | JStr t \<Rightarrow> Inr (if i < length t then Some (JStr [t ! i]) else None)
      | JObj kvs \<Rightarrow> Inr (map_of (rev kvs) (index_key i))
      | JBool b \<Rightarrow> Inr None
      | JNum q \<Rightarrow> Inr None)"

definition js_at :: "json \<Rightarrow> nat \<Rightarrow> js" where
  "js_at data i = (case js_index data i of Inl e \<Rightarrow> None | Inr v \<Rightarrow> v)"

text \<open>\<^verbatim>\<open>payload.count\<close>: a property read by name.\<close>

definition js_prop :: "js \<Rightarrow> string \<Rightarrow> exn + js" where
  "js_prop v name =
     (case v of
        None \<Rightarrow> Inl TypeError
      | Some JNull \<Rightarrow> Inl TypeError
      | Some (JObj kvs) \<Rightarrow> Inr (map_of (rev kvs) name)
      | Some (JArr xs) \<Rightarrow> Inr None
      | Some (JStr t) \<Rightarrow> Inr None
      | Some (JBool b) \<Rightarrow> Inr None
      | Some (JNum q) \<Rightarrow> Inr None)"

text \<open>
  \<^verbatim>\<open>String.prototype.includes\<close>: the pattern occurs as a contiguous run of the
  text. \<^verbatim>\<open>startsWith\<close> is \<open>str_startsWith\<close>.
\<close>

fun str_startsWith :: "string \<Rightarrow> string \<Rightarrow> bool" where
  "str_startsWith t [] = True"
| "str_startsWith [] (c # p) = False"
| "str_startsWith (d # t) (c # p) = (d = c \<and> str_startsWith t p)"

fun str_includes :: "string \<Rightarrow> string \<Rightarrow> bool" where
  "str_includes [] p = (p = [])"
| "str_includes (d # t) p = (str_startsWith (d # t) p \<or> str_includes t p)"

text \<open>
  \<^verbatim>\<open>notice.includes(p)\<close> on whatever the frame carried: a string is searched, an
  array has an \<^verbatim>\<open>includes\<close> of its own that looks for an element equal to the
  pattern, and every other value has no such method, so the call throws.
\<close>

definition js_includes :: "js \<Rightarrow> string \<Rightarrow> exn + bool" where
  "js_includes v p =
     (case v of
        Some (JStr t) \<Rightarrow> Inr (str_includes t p)
      | Some (JArr xs) \<Rightarrow> Inr (JStr p \<in> set xs)
      | Some (JObj kvs) \<Rightarrow> Inl TypeError
      | Some (JBool b) \<Rightarrow> Inl TypeError
      | Some (JNum q) \<Rightarrow> Inl TypeError
      | Some JNull \<Rightarrow> Inl TypeError
      | None \<Rightarrow> Inl TypeError)"

text \<open>
  A \<^verbatim>\<open>Map\<close> whose keys are strings, read and deleted with a key that came out of a
  frame: a key that is no string equals none of the map's keys.
\<close>

definition map_get :: "(string \<rightharpoonup> 'a) \<Rightarrow> js \<Rightarrow> 'a option" where
  "map_get m k = (case k of Some (JStr key) \<Rightarrow> m key | _ \<Rightarrow> None)"

definition map_delete :: "(string \<rightharpoonup> 'a) \<Rightarrow> js \<Rightarrow> (string \<rightharpoonup> 'a)" where
  "map_delete m k = (case k of Some (JStr key) \<Rightarrow> m(key := None) | _ \<Rightarrow> m)"

section \<open>The state of a connection (relay/connectivity.ts, NDKRelayConnectivity)\<close>

text \<open>
  Modelled from the spec: the enumeration \<^verbatim>\<open>NDKRelayStatus\<close> is declared in
  \<^verbatim>\<open>relay/index.ts\<close>; its values are those the specification lists for the status.
\<close>

datatype NDKRelayStatus =
    DISCONNECTED
  | CONNECTING
  | RECONNECTING
  | CONNECTED
  | AUTHENTICATING
  | AUTHENTICATED
  | DISCONNECTING
  | FLAPPING

text \<open>
  The socket, as far as the connection uses it: its \<^verbatim>\<open>readyState\<close> and the frames
  handed to its \<^verbatim>\<open>send\<close>.
\<close>

datatype ReadyState = WS_CONNECTING | WS_OPEN | WS_CLOSING | WS_CLOSED

record WebSocket =
  readyState :: ReadyState
  sent :: "string list"

record NDKRelayConnectionStats =
  attempts :: nat
  success :: nat
  durations :: "int list"
  stats_connectedAt :: "int option"
  nextReconnectAt :: "int option"

text \<open>
  A subscription handle (\<^verbatim>\<open>NDKRelaySubscription\<close>, declared in
  \<^verbatim>\<open>relay/subscriptions.ts\<close>): the message handler reads its \<^verbatim>\<open>filters\<close>, writes its
  \<^verbatim>\<open>closed\<close> flag and calls its methods \<^verbatim>\<open>onevent\<close>, \<^verbatim>\<open>receivedEose\<close> and
  \<^verbatim>\<open>close\<close>. A call of a method is recorded with its argument.
\<close>

record NDKRelaySubscription =
  filters :: "json list"
  sub_closed :: bool

datatype sub_call = Onevent js | ReceivedEose | Close js

text \<open>
  A pending request holds the two functions of a promise. Promises are numbered as they
  are created; a call of \<^verbatim>\<open>resolve(v)\<close> or of \<^verbatim>\<open>reject(new Error(v))\<close> of promise
  \<open>p\<close> is recorded as \<open>(p, Resolve v)\<close> or \<open>(p, RejectError v)\<close>.
\<close>

datatype settle = Resolve js | RejectError js

text \<open>The events \<^verbatim>\<open>this.ndkRelay.emit\<close> sends to the host, with their payload.\<close>

datatype relay_event =
    EvConnect
  | EvReady
  | EvDisconnect
  | EvNotice js
  | EvAuth js
  | EvAuthed
  | EvFlapping NDKRelayConnectionStats
  | EvDelayedConnect int

text \<open>
  What a timer runs when it fires: the four callbacks the class hands to
  \<^verbatim>\<open>setTimeout\<close>. A timer is its handle, the time it fires at and its callback.
\<close>

datatype task =
    OnConnectionError bool
  | ReconnectCallback nat
  | RetryHandleReconnection nat
  | NoticeConnect

type_synonym timer = "nat \<times> int \<times> task"

text \<open>
  The fields of the class, then what the class does to its surroundings: the timers
  that are pending, the events emitted, the calls made on subscription handles and on
  the functions of promises, the challenges handed to an authentication policy, and
  the rejections of promises that nothing awaits or catches (the host reports them as
  unhandled rejections). Calls of \<^verbatim>\<open>this.debug\<close> only write to a log and are left
  out.
\<close>

record conn =
  ws :: "WebSocket option"
  status :: NDKRelayStatus
  timeoutMs :: "int option"
  connectedAt :: "int option"
  connectionStats :: NDKRelayConnectionStats
  connectTimeout :: "nat option"
  reconnectTimeout :: "nat option"
  openSubs :: "string \<rightharpoonup> NDKRelaySubscription"
  openCountRequests :: "string \<rightharpoonup> nat"
  openEventPublishes :: "string \<rightharpoonup> nat"
  serial :: nat
  timers :: "timer list"
  next_timer :: nat
  next_promise :: nat
  emitted :: "relay_event list"
  sub_calls :: "(string \<times> sub_call) list"
  settle_calls :: "(nat \<times> settle) list"
  policy_calls :: "js list"
  unhandled :: "exn list"

text \<open>
  The surroundings of a connection: what \<^verbatim>\<open>new WebSocket(url)\<close> does at a given
  time, what \<^verbatim>\<open>ws.close()\<close> does to a socket, \<^verbatim>\<open>matchFilters\<close> of nostr-tools,
  whether a method of a subscription handle throws, whether an authentication policy
  is configured (on the relay or as the default of the NDK instance) and what its
  promise settles to for a challenge, whether the NDK instance has a signer, and the
  signed \<^verbatim>\<open>ClientAuth\<close> event for a challenge, or the rejection of its \<^verbatim>\<open>sign()\<close>.
\<close>

record NostrEvent =
  event_id :: string
  event_json :: string

datatype policy_result = PolicyEvent NostrEvent | PolicyTrue | PolicyOther

record env =
  new_WebSocket :: "int \<Rightarrow> exn + WebSocket"
  ws_close :: "WebSocket \<Rightarrow> exn + WebSocket"
  matchFilters :: "json list \<Rightarrow> js \<Rightarrow> exn + bool"
  sub_throws :: "string \<Rightarrow> sub_call \<Rightarrow> exn option"
  authPolicy :: bool
  policy_settles :: "js \<Rightarrow> exn + policy_result"
  has_signer :: bool
  sign_auth_event :: "js \<Rightarrow> exn + NostrEvent"

definition MAX_RECONNECT_ATTEMPTS :: nat where
  "MAX_RECONNECT_ATTEMPTS = 5"

text \<open>The constructor: \<^verbatim>\<open>DISCONNECTED\<close>, empty registries, counters at 0.\<close>

definition new_conn :: conn where
  "new_conn =
     \<lparr> ws = None, status = DISCONNECTED, timeoutMs = None, connectedAt = None,
       connectionStats =
         \<lparr> attempts = 0, success = 0, durations = [], stats_connectedAt = None,
           nextReconnectAt = None \<rparr>,
       connectTimeout = None, reconnectTimeout = None,
       openSubs = Map.empty, openCountRequests = Map.empty, openEventPublishes = Map.empty,
       serial = 0, timers = [], next_timer = 1, next_promise = 0, emitted = [],
       sub_calls = [], settle_calls = [], policy_calls = [], unhandled = [] \<rparr>"

subsection \<open>Timers and events\<close>

text \<open>
  \<^verbatim>\<open>setTimeout(f, delay)\<close> at time \<open>now\<close>: a delay that is \<^verbatim>\<open>undefined\<close> or
  negative is 0. \<^verbatim>\<open>clearTimeout\<close> removes the timer if it is still pending. A
  handle is truthy: a field that holds one passes the test \<^verbatim>\<open>if (this.reconnectTimeout)\<close>.
\<close>

definition setTimeout :: "int \<Rightarrow> task \<Rightarrow> int option \<Rightarrow> conn \<Rightarrow> nat \<times> conn" where
  "setTimeout now f delay s =
     (next_timer s,
      s\<lparr> timers := timers s @ [(next_timer s, now + (case delay of None \<Rightarrow> 0 | Some d \<Rightarrow> max 0 d), f)],
         next_timer := Suc (next_timer s) \<rparr>)"

definition clearTimeout :: "nat \<Rightarrow> conn \<Rightarrow> conn" where
  "clearTimeout h s = s\<lparr> timers := filter (\<lambda>t. fst t \<noteq> h) (timers s) \<rparr>"

definition emit :: "relay_event \<Rightarrow> conn \<Rightarrow> conn" where
  "emit e s = s\<lparr> emitted := emitted s @ [e] \<rparr>"

text \<open>
  A call of an \<^verbatim>\<open>async\<close> function whose promise is dropped: the call runs, and if
  it throws, the rejection of its promise is handled by nothing.
\<close>

definition unhandled_rejection :: "exn \<Rightarrow> conn \<Rightarrow> conn" where
  "unhandled_rejection e s = s\<lparr> unhandled := unhandled s @ [e] \<rparr>"

definition drop_promise :: "conn \<times> exn option \<Rightarrow> conn" where
  "drop_promise r =
     (case snd r of
        None \<Rightarrow> fst r
      | Some e \<Rightarrow> unhandled_rejection e (fst r))"

subsection \<open>updateConnectionStats\<close>

definition stats_connected :: "int \<Rightarrow> conn \<Rightarrow> conn" where
  "stats_connected now s =
     s\<lparr> connectionStats := (connectionStats s)
          \<lparr> success := Suc (success (connectionStats s)), stats_connectedAt := Some now \<rparr> \<rparr>"

definition stats_disconnected :: "int \<Rightarrow> conn \<Rightarrow> conn" where
  "stats_disconnected now s =
     (let st = connectionStats s;
          st1 =
            (case stats_connectedAt st of
               None \<Rightarrow> st
             | Some t \<Rightarrow>
                 if t \<noteq> 0 then
                   (let ds = durations st @ [now - t]
                    in st\<lparr> durations := (if length ds > 100 then tl ds else ds) \<rparr>)
                 else st)
      in s\<lparr> connectionStats := st1\<lparr> stats_connectedAt := None \<rparr> \<rparr>)"

definition stats_attempt :: "conn \<Rightarrow> conn" where
  "stats_attempt s =
     s\<lparr> connectionStats := (connectionStats s)\<lparr> attempts := Suc (attempts (connectionStats s)) \<rparr> \<rparr>"

subsection \<open>isFlapping, handleReconnection\<close>

definition isFlapping :: "conn \<Rightarrow> bool" where
  "isFlapping s = isFlapping_durations (durations (connectionStats s))"

text \<open>
  \<^verbatim>\<open>handleReconnection(attempt)\<close> at time \<open>now\<close>. The delay reads the field
  \<^verbatim>\<open>this.connectedAt\<close> of the class (not the \<^verbatim>\<open>connectedAt\<close> of the statistics).
\<close>

definition reconnectDelay :: "int \<Rightarrow> conn \<Rightarrow> int" where
  "reconnectDelay now s =
     (case connectedAt s of
        None \<Rightarrow> 5000 * (int (attempts (connectionStats s)) + 1)
      | Some t \<Rightarrow>
          if t \<noteq> 0 then max 0 (60000 - (now - t))
          else 5000 * (int (attempts (connectionStats s)) + 1))"

definition handleReconnection :: "nat \<Rightarrow> int \<Rightarrow> conn \<Rightarrow> conn" where
  "handleReconnection attempt now s =
     (case reconnectTimeout s of
        Some h \<Rightarrow> s
      | None \<Rightarrow>
          if isFlapping s then (emit (EvFlapping (connectionStats s)) s)\<lparr> status := FLAPPING \<rparr>
          else
            (let d = reconnectDelay now s;
                 (h, s1) = setTimeout now (ReconnectCallback attempt) (Some d) s;
                 s2 = s1\<lparr> reconnectTimeout := Some h \<rparr>;
                 s3 = emit (EvDelayedConnect d) s2
             in s3\<lparr> connectionStats := (connectionStats s3)\<lparr> nextReconnectAt := Some (now + d) \<rparr> \<rparr>))"

subsection \<open>connect, disconnect and the socket's events\<close>

definition connect :: "env \<Rightarrow> int \<Rightarrow> int option \<Rightarrow> bool \<Rightarrow> conn \<Rightarrow> conn \<times> exn option" where
  "connect env now timeoutMs_arg reconnect s =
     (let s1 = (case reconnectTimeout s of
                  Some h \<Rightarrow> (clearTimeout h s)\<lparr> reconnectTimeout := None \<rparr>
                | None \<Rightarrow> s);
          s2 = (case connectTimeout s1 of
                  Some h \<Rightarrow> (clearTimeout h s1)\<lparr> connectTimeout := None \<rparr>
                | None \<Rightarrow> s1);
          tm = (case timeoutMs_arg of None \<Rightarrow> timeoutMs s2 | Some v \<Rightarrow> Some v);
          s3 = (if \<not> truthy_num (timeoutMs s2) \<and> truthy_num tm then s2\<lparr> timeoutMs := tm \<rparr> else s2);
          (h, s4) = setTimeout now (OnConnectionError reconnect) (timeoutMs s3) s3;
          s5 = s4\<lparr> connectTimeout := Some h \<rparr>;
          s6 = stats_attempt s5;
          s7 = s6\<lparr> status := (if status s6 = DISCONNECTED then CONNECTING else RECONNECTING) \<rparr>
      in case new_WebSocket env now of
           Inr w \<Rightarrow> (s7\<lparr> ws := Some w \<rparr>, None)
         | Inl e \<Rightarrow>
             (let s8 = s7\<lparr> status := DISCONNECTED \<rparr>;
                  s9 = (if reconnect then handleReconnection 0 now s8
                        else emit (EvDelayedConnect (2 * 24 * 60 * 60 * 1000)) s8)
              in (s9, Some e)))"

definition disconnect :: "env \<Rightarrow> conn \<Rightarrow> conn" where
  "disconnect env s =
     (let s1 = s\<lparr> status := DISCONNECTING \<rparr>
      in case ws s1 of
           None \<Rightarrow> s1
         | Some w \<Rightarrow>
             (case ws_close env w of
                Inr w' \<Rightarrow> s1\<lparr> ws := Some w' \<rparr>
              | Inl e \<Rightarrow> s1\<lparr> status := DISCONNECTED \<rparr>))"

definition onConnectionError :: "bool \<Rightarrow> int \<Rightarrow> conn \<Rightarrow> conn" where
  "onConnectionError reconnect now s = (if reconnect then handleReconnection 0 now s else s)"

definition onConnect :: "int \<Rightarrow> conn \<Rightarrow> conn" where
  "onConnect now s =
     (let s1 = (case reconnectTimeout s of
                  Some h \<Rightarrow> (clearTimeout h s)\<lparr> reconnectTimeout := None \<rparr>
                | None \<Rightarrow> s);
          s2 = (case connectTimeout s1 of
                  Some h \<Rightarrow> (clearTimeout h s1)\<lparr> connectTimeout := None \<rparr>
                | None \<Rightarrow> s1);
          s3 = stats_connected now s2;
          s4 = s3\<lparr> status := CONNECTED \<rparr>
      in emit EvReady (emit EvConnect s4))"

definition onDisconnect :: "int \<Rightarrow> conn \<Rightarrow> conn" where
  "onDisconnect now s =
     (let s1 = stats_disconnected now s;
          s2 = (if status s1 = CONNECTED
                then handleReconnection 0 now (s1\<lparr> status := DISCONNECTED \<rparr>)
                else s1)
      in emit EvDisconnect s2)"

text \<open>
  The callback of the reconnect timer, with the \<^verbatim>\<open>catch\<close> of the promise
  \<^verbatim>\<open>connect()\<close> returns: \<^verbatim>\<open>connect\<close> has no \<^verbatim>\<open>await\<close>, so it has run to its end
  when the callback returns, and the \<^verbatim>\<open>catch\<close> runs right after, at the same time. In
  \<^verbatim>\<open>(1000 * (attempt + 1)) ^ 4\<close> the operator is the bitwise exclusive or; \<open>attempt\<close>
  is below 5 there, so the operand is within 32 bits.
\<close>

definition reconnect_callback :: "env \<Rightarrow> nat \<Rightarrow> int \<Rightarrow> conn \<Rightarrow> conn" where
  "reconnect_callback env attempt now s =
     (let s1 = s\<lparr> reconnectTimeout := None \<rparr>;
          s2 = s1\<lparr> status := RECONNECTING \<rparr>;
          (s3, r) = connect env now None True s2
      in case r of
           None \<Rightarrow> s3
         | Some err \<Rightarrow>
             if attempt < MAX_RECONNECT_ATTEMPTS
             then snd (setTimeout now (RetryHandleReconnection (attempt + 1))
                         (Some ((1000 * (int attempt + 1)) XOR 4)) s3)
             else s3)"

subsection \<open>send and publish\<close>

text \<open>
  \<^verbatim>\<open>send\<close> is an \<^verbatim>\<open>async\<close> function: the error it throws is the rejection of the
  promise it returns.
\<close>

definition send :: "string \<Rightarrow> conn \<Rightarrow> conn \<times> exn option" where
  "send message s =
     (case ws s of
        Some w \<Rightarrow>
          if status s = CONNECTED \<and> readyState w = WS_OPEN
          then (s\<lparr> ws := Some (w\<lparr> sent := sent w @ [message] \<rparr>) \<rparr>, None)
          else (s, Some (Error ''Attempting to send on a closed relay connection''))
      | None \<Rightarrow> (s, Some (Error ''Attempting to send on a closed relay connection'')))"

text \<open>
  An event (\<open>NostrEvent\<close> above) is its id and the text \<^verbatim>\<open>JSON.stringify\<close> gives for
  it. \<^verbatim>\<open>publish\<close> stores the functions of a new promise under the id, calls
  \<^verbatim>\<open>send\<close> without waiting for it, and returns the promise; \<^verbatim>\<open>auth\<close> does the same
  with the verb \<^verbatim>\<open>AUTH\<close>.
\<close>

definition publish :: "NostrEvent \<Rightarrow> conn \<Rightarrow> nat \<times> conn" where
  "publish event s =
     (let p = next_promise s;
          s1 = s\<lparr> next_promise := Suc p,
                  openEventPublishes := (openEventPublishes s)(event_id event \<mapsto> p) \<rparr>
      in (p, drop_promise (send (''[\"EVENT\",'' @ event_json event @ '']'') s1)))"

definition auth :: "NostrEvent \<Rightarrow> conn \<Rightarrow> nat \<times> conn" where
  "auth event s =
     (let p = next_promise s;
          s1 = s\<lparr> next_promise := Suc p,
                  openEventPublishes := (openEventPublishes s)(event_id event \<mapsto> p) \<rparr>
      in (p, drop_promise (send (''[\"AUTH\",'' @ event_json event @ '']'') s1)))"

subsection \<open>onNotice, onAuthRequested, onMessage\<close>

text \<open>
  \<^verbatim>\<open>onNotice\<close> is an \<^verbatim>\<open>async\<close> function with no \<^verbatim>\<open>await\<close>: it runs to its end
  when called, and what it throws is the rejection of the promise it returns. The
  message handler does not await that promise, so its \<^verbatim>\<open>catch\<close> does not see the
  rejection. The timer \<^verbatim>\<open>onNotice\<close> sets calls \<^verbatim>\<open>connect()\<close>.
\<close>

definition complaining :: "js \<Rightarrow> exn + bool" where
  "complaining notice =
     (case js_includes notice ''oo many'' of
        Inl e \<Rightarrow> Inl e
      | Inr True \<Rightarrow> Inr True
      | Inr False \<Rightarrow> js_includes notice ''aximum'')"

definition onNotice :: "env \<Rightarrow> int \<Rightarrow> js \<Rightarrow> conn \<Rightarrow> conn \<times> exn option" where
  "onNotice env now notice s =
     (case complaining notice of
        Inl e \<Rightarrow> (s, Some e)
      | Inr True \<Rightarrow>
          (let s1 = disconnect env s;
               s2 = snd (setTimeout now NoticeConnect (Some 2000) s1)
           in (emit (EvNotice notice) s2, None))
      | Inr False \<Rightarrow> (emit (EvNotice notice) s, None))"

text \<open>
  \<^verbatim>\<open>onAuthRequested\<close> is an \<^verbatim>\<open>async\<close> function whose promise the message handler
  drops. It runs in up to four turns, one per \<^verbatim>\<open>await\<close>; between two of them other
  events of the connection may run. \<open>auth_stage\<close> says what the function waits for at
  the end of a turn: the policy's promise for a challenge, the signature of the event
  for a challenge, the promise of \<^verbatim>\<open>auth\<close>, or nothing.

  The first turn, inside the message handler: with a policy and a status other than
  \<^verbatim>\<open>AUTHENTICATING\<close> the status is set and the policy is called with the challenge;
  without a policy the event \<^verbatim>\<open>auth\<close> is emitted.
\<close>

datatype auth_stage = AwaitPolicy js | AwaitSign js | AwaitAuth nat | AuthDone

definition onAuthRequested :: "env \<Rightarrow> js \<Rightarrow> conn \<Rightarrow> auth_stage \<times> conn" where
  "onAuthRequested env challenge s =
     (if authPolicy env then
        (if status s \<noteq> AUTHENTICATING
         then (AwaitPolicy challenge,
               s\<lparr> status := AUTHENTICATING, policy_calls := policy_calls s @ [challenge] \<rparr>)
         else (AuthDone, s))
      else (AuthDone, emit (EvAuth challenge) s))"

text \<open>The end of the function: the status is \<^verbatim>\<open>CONNECTED\<close>, \<^verbatim>\<open>authed\<close> is emitted.\<close>

definition authed :: "conn \<Rightarrow> conn" where
  "authed s = emit EvAuthed (s\<lparr> status := CONNECTED \<rparr>)"

text \<open>
  The turn after the policy's promise has settled. A rejection rejects the function.
  An event is handed to \<^verbatim>\<open>auth\<close>, whose promise is awaited. For \<^verbatim>\<open>true\<close>: without a
  signer the function throws; with one and the status still \<^verbatim>\<open>AUTHENTICATING\<close> the
  event is built and its signature awaited; with another status the function goes to
  its end. Any other result ends the function with nothing done.
\<close>

definition onAuthRequested_policy :: "env \<Rightarrow> js \<Rightarrow> conn \<Rightarrow> auth_stage \<times> conn" where
  "onAuthRequested_policy env challenge s =
     (case policy_settles env challenge of
        Inl e \<Rightarrow> (AuthDone, unhandled_rejection e s)
      | Inr (PolicyEvent event) \<Rightarrow> (AwaitAuth (fst (auth event s)), snd (auth event s))
      | Inr PolicyTrue \<Rightarrow>
          if \<not> has_signer env
          then (AuthDone,
                unhandled_rejection (Error ''No signer available for authentication'') s)
          else if status s = AUTHENTICATING then (AwaitSign challenge, s)
          else (AuthDone, authed s)
      | Inr PolicyOther \<Rightarrow> (AuthDone, s))"

text \<open>The turn after \<^verbatim>\<open>event.sign()\<close> has settled.\<close>

definition onAuthRequested_signed :: "env \<Rightarrow> js \<Rightarrow> conn \<Rightarrow> auth_stage \<times> conn" where
  "onAuthRequested_signed env challenge s =
     (case sign_auth_event env challenge of
        Inl e \<Rightarrow> (AuthDone, unhandled_rejection e s)
      | Inr event \<Rightarrow> (AwaitAuth (fst (auth event s)), snd (auth event s)))"

text \<open>
  The turn after the promise of \<^verbatim>\<open>auth\<close> has been settled by an \<^verbatim>\<open>OK\<close> frame:
  resolved, the function goes to its end; rejected, the function is rejected.
\<close>

definition onAuthRequested_settled :: "settle \<Rightarrow> conn \<Rightarrow> conn" where
  "onAuthRequested_settled outcome s =
     (case outcome of
        Resolve v \<Rightarrow> authed s
      | RejectError v \<Rightarrow> unhandled_rejection (ErrorOf v) s)"

text \<open>A call of a method of the subscription handle stored under \<open>sid\<close>.\<close>

definition call_sub :: "env \<Rightarrow> string \<Rightarrow> sub_call \<Rightarrow> conn \<Rightarrow> conn \<times> exn option" where
  "call_sub env sid c s =
     (s\<lparr> sub_calls := sub_calls s @ [(sid, c)] \<rparr>, sub_throws env sid c)"

text \<open>
  The key of a registry entry that \<open>map_get\<close> found: the string the frame carried.
\<close>

definition key_of :: "js \<Rightarrow> string" where
  "key_of k = (case k of Some (JStr key) \<Rightarrow> key | _ \<Rightarrow> [])"

text \<open>
  The body of the \<^verbatim>\<open>try\<close> of \<^verbatim>\<open>onMessage\<close>. The message is \<open>None\<close> when
  \<^verbatim>\<open>JSON.parse(event.data)\<close> throws, and the parsed value otherwise. The result is
  the state reached and the exception thrown there, if any. The \<^verbatim>\<open>switch\<close> compares
  \<^verbatim>\<open>data[0]\<close> with each verb by strict equality.
\<close>

definition onMessage_EVENT :: "env \<Rightarrow> json \<Rightarrow> conn \<Rightarrow> conn \<times> exn option" where
  "onMessage_EVENT env data s =
     (case map_get (openSubs s) (js_at data 1) of
        None \<Rightarrow> (s, Some TypeError)
      | Some so \<Rightarrow>
          (case matchFilters env (filters so) (js_at data 2) of
             Inl e \<Rightarrow> (s, Some e)
           | Inr True \<Rightarrow> call_sub env (key_of (js_at data 1)) (Onevent (js_at data 2)) s
           | Inr False \<Rightarrow> (s, None)))"

definition onMessage_COUNT :: "json \<Rightarrow> conn \<Rightarrow> conn \<times> exn option" where
  "onMessage_COUNT data s =
     (let id = js_at data 1; payload = js_at data 2
      in case map_get (openCountRequests s) id of
           None \<Rightarrow> (s, None)
         | Some cr \<Rightarrow>
             (case js_prop payload ''count'' of
                Inl e \<Rightarrow> (s, Some e)
              | Inr c \<Rightarrow>
                  (s\<lparr> settle_calls := settle_calls s @ [(cr, Resolve c)],
                      openCountRequests := map_delete (openCountRequests s) id \<rparr>, None)))"

definition onMessage_EOSE :: "env \<Rightarrow> json \<Rightarrow> conn \<Rightarrow> conn \<times> exn option" where
  "onMessage_EOSE env data s =
     (case map_get (openSubs s) (js_at data 1) of
        None \<Rightarrow> (s, None)
      | Some so \<Rightarrow> call_sub env (key_of (js_at data 1)) ReceivedEose s)"

definition onMessage_OK :: "json \<Rightarrow> conn \<Rightarrow> conn \<times> exn option" where
  "onMessage_OK data s =
     (let id = js_at data 1; ok = js_at data 2; reason = js_at data 3
      in case map_get (openEventPublishes s) id of
           None \<Rightarrow> (s, Some TypeError)
         | Some ep \<Rightarrow>
             (s\<lparr> settle_calls :=
                   settle_calls s @ [(ep, if truthy ok then Resolve reason else RejectError reason)],
                 openEventPublishes := map_delete (openEventPublishes s) id \<rparr>, None))"

definition onMessage_CLOSED :: "env \<Rightarrow> json \<Rightarrow> conn \<Rightarrow> conn \<times> exn option" where
  "onMessage_CLOSED env data s =
     (let id = js_at data 1
      in case map_get (openSubs s) id of
           None \<Rightarrow> (s, None)
         | Some so \<Rightarrow>
             call_sub env (key_of id) (Close (js_at data 2))
               (s\<lparr> openSubs := (openSubs s)(key_of id \<mapsto> so\<lparr> sub_closed := True \<rparr>) \<rparr>))"

definition onMessage_try :: "env \<Rightarrow> int \<Rightarrow> json option \<Rightarrow> conn \<Rightarrow> conn \<times> exn option" where
  "onMessage_try env now message s =
     (case message of
        None \<Rightarrow> (s, Some SyntaxError)
      | Some data \<Rightarrow>
          (case js_index data 0 of
             Inl e \<Rightarrow> (s, Some e)
           | Inr verb \<Rightarrow>
               if verb = Some (JStr ''EVENT'') then onMessage_EVENT env data s
               else if verb = Some (JStr ''COUNT'') then onMessage_COUNT data s
               else if verb = Some (JStr ''EOSE'') then onMessage_EOSE env data s
               else if verb = Some (JStr ''OK'') then onMessage_OK data s
               else if verb = Some (JStr ''CLOSED'') then onMessage_CLOSED env data s
               else if verb = Some (JStr ''NOTICE'')
                 then (drop_promise (onNotice env now (js_at data 1) s), None)
               else if verb = Some (JStr ''AUTH'')
                 then (snd (onAuthRequested env (js_at data 1) s), None)
               else (s, None)))"

text \<open>
  \<^verbatim>\<open>onMessage\<close>: the \<^verbatim>\<open>catch\<close> takes whatever the body threw, logs its message and
  returns.
\<close>

definition onMessage :: "env \<Rightarrow> int \<Rightarrow> json option \<Rightarrow> conn \<Rightarrow> conn \<times> exn option" where
  "onMessage env now message s =
     (case onMessage_try env now message s of
        (s', Some error) \<Rightarrow> (s', None)
      | (s', None) \<Rightarrow> (s', None))"

subsection \<open>The timers firing\<close>

definition run_task :: "env \<Rightarrow> int \<Rightarrow> task \<Rightarrow> conn \<Rightarrow> conn" where
  "run_task env now f s =
     (case f of
        OnConnectionError reconnect \<Rightarrow> onConnectionError reconnect now s
      | ReconnectCallback attempt \<Rightarrow> reconnect_callback env attempt now s
      | RetryHandleReconnection attempt \<Rightarrow> handleReconnection attempt now s
      | NoticeConnect \<Rightarrow> drop_promise (connect env now None True s))"

text \<open>
  The timer that fires next: the earliest, and among timers of one time the one set
  first. \<open>fire_next\<close> takes it off the list and runs its callback at its time;
  \<open>run_timers n\<close> does so \<open>n\<close> times.
\<close>

fun earliest :: "timer list \<Rightarrow> timer option" where
  "earliest [] = None"
| "earliest (t # ts) =
     (case earliest ts of
        None \<Rightarrow> Some t
      | Some u \<Rightarrow> if fst (snd u) < fst (snd t) then Some u else Some t)"

definition fire_next :: "env \<Rightarrow> conn \<Rightarrow> conn" where
  "fire_next env s =
     (case earliest (timers s) of
        None \<Rightarrow> s
      | Some (h, due, f) \<Rightarrow> run_task env due f (clearTimeout h s))"

fun run_timers :: "env \<Rightarrow> nat \<Rightarrow> conn \<Rightarrow> conn" where
  "run_timers env 0 s = s"
| "run_timers env (Suc n) s = run_timers env n (fire_next env s)"

subsection \<open>The states a connection can be in\<close>

text \<open>
  From the constructor's state, by any call of a public method, any event of the
  socket, any timer firing and any turn of the authentication.
\<close>

inductive_set reachable :: "env \<Rightarrow> conn set" for env :: env where
  reach_new: "new_conn \<in> reachable env"
| reach_connect: "s \<in> reachable env \<Longrightarrow> fst (connect env now tm reconnect s) \<in> reachable env"
| reach_disconnect: "s \<in> reachable env \<Longrightarrow> disconnect env s \<in> reachable env"
| reach_onConnect: "s \<in> reachable env \<Longrightarrow> onConnect now s \<in> reachable env"
| reach_onDisconnect: "s \<in> reachable env \<Longrightarrow> onDisconnect now s \<in> reachable env"
| reach_onMessage: "s \<in> reachable env \<Longrightarrow> fst (onMessage env now m s) \<in> reachable env"
| reach_send: "s \<in> reachable env \<Longrightarrow> fst (send message s) \<in> reachable env"
| reach_publish: "s \<in> reachable env \<Longrightarrow> snd (publish event s) \<in> reachable env"
| reach_timer: "s \<in> reachable env \<Longrightarrow> fire_next env s \<in> reachable env"
| reach_policy:
    "s \<in> reachable env \<Longrightarrow> snd (onAuthRequested_policy env challenge s) \<in> reachable env"
| reach_signed:
    "s \<in> reachable env \<Longrightarrow> snd (onAuthRequested_signed env challenge s) \<in> reachable env"
| reach_settled:
    "s \<in> reachable env \<Longrightarrow> onAuthRequested_settled outcome s \<in> reachable env"

section \<open>The remote signer (signers/nip46/index.ts, NDKNip46Signer)\<close>

text \<open>
  A user (\<^verbatim>\<open>NDKUser\<close>, declared in \<^verbatim>\<open>user/index.ts\<close>) is read here through its
  \<^verbatim>\<open>pubkey\<close>. A response of the remote side (\<^verbatim>\<open>NDKRpcResponse\<close>, declared in
  \<^verbatim>\<open>signers/nip46/rpc.ts\<close>) has an id, a result and an optional error.
\<close>

record NDKUser =
  pubkey :: "string option"

record NDKRpcResponse =
  response_id :: string
  result :: string
  error :: "string option"

record signer =
  remoteUser :: NDKUser
  remotePubkey :: "string option"
  token :: "string option"
  nip05 :: "string option"

text \<open>
  The surroundings of a signer: the decoding of an npub done by the \<^verbatim>\<open>pubkey\<close> getter
  of \<^verbatim>\<open>new NDKUser({ npub })\<close>, which may throw; the public key of the user the local
  signer resolves to, or the rejection of \<^verbatim>\<open>localSigner.user()\<close>; the rejection of
  \<^verbatim>\<open>rpc.subscribe\<close>, if any; and the user \<^verbatim>\<open>NDKUser.fromNip05\<close> resolves to, if any.
\<close>

record signer_env =
  npub_decode :: "string \<Rightarrow> exn + string"
  local_user :: "exn + string"
  rpc_subscribe :: "exn option"
  fromNip05 :: "string \<Rightarrow> NDKUser option"

text \<open>A string that may be \<^verbatim>\<open>undefined\<close>, in a condition: the empty string is falsy.\<close>

fun truthy_str :: "string option \<Rightarrow> bool" where
  "truthy_str None = False"
| "truthy_str (Some t) = (t \<noteq> [])"

text \<open>\<^verbatim>\<open>t.split(c)\<close> for a separator of one character.\<close>

fun split_on :: "char \<Rightarrow> string \<Rightarrow> string list" where
  "split_on c [] = [[]]"
| "split_on c (d # t) =
     (if d = c then [] # split_on c t
      else (case split_on c t of [] \<Rightarrow> [[d]] | p # ps \<Rightarrow> (d # p) # ps))"

definition part :: "string list \<Rightarrow> nat \<Rightarrow> string option" where
  "part parts i = (if i < length parts then Some (parts ! i) else None)"

text \<open>
  The end of the constructor, from the local \<^verbatim>\<open>remotePubkey\<close> and \<^verbatim>\<open>token\<close> and
  the \<^verbatim>\<open>nip05\<close> set before.
\<close>

definition signer_fields :: "string option \<Rightarrow> string option \<Rightarrow> string option \<Rightarrow> signer" where
  "signer_fields remotePubkey0 token0 nip050 =
     \<lparr> remoteUser = \<lparr> pubkey = remotePubkey0 \<rparr>,
       remotePubkey = (if truthy_str remotePubkey0 then remotePubkey0 else None),
       token = token0,
       nip05 = nip050 \<rparr>"

definition new_signer :: "signer_env \<Rightarrow> string \<Rightarrow> exn + signer" where
  "new_signer env tokenOrRemoteUser =
     (if str_includes tokenOrRemoteUser ''#'' then
        (let parts = split_on (CHR ''#'') tokenOrRemoteUser
         in case part parts 0 of
              None \<Rightarrow> Inl TypeError
            | Some npub \<Rightarrow>
                (case npub_decode env npub of
                   Inl e \<Rightarrow> Inl e
                 | Inr pk \<Rightarrow> Inr (signer_fields (Some pk) (part parts 1) None)))
      else if str_startsWith tokenOrRemoteUser ''npub'' then
        (case npub_decode env tokenOrRemoteUser of
           Inl e \<Rightarrow> Inl e
         | Inr pk \<Rightarrow> Inr (signer_fields (Some pk) None None))
      else if str_includes tokenOrRemoteUser ''.'' then
        Inr (signer_fields None None (Some tokenOrRemoteUser))
      else Inr (signer_fields (Some tokenOrRemoteUser) None None))"

text \<open>
  What \<^verbatim>\<open>blockUntilReady\<close> does to its surroundings, in order: a lookup of the
  human-readable identifier is started; the subscription is opened with its kinds and
  its \<^verbatim>\<open>#p\<close> tags; a timer is set with its delay, whose callback sends the
  \<^verbatim>\<open>connect\<close> request for the local public key it holds.
\<close>

datatype signer_action =
    FromNip05 string
  | Subscribe "nat list" "string list"
  | SetTimeout int string

text \<open>
  A request handed to \<^verbatim>\<open>rpc.sendRequest\<close>: the remote public key, the method, the
  parameters and the kind.
\<close>

record rpc_request =
  request_remote :: "string option"
  request_method :: string
  request_params :: "string list"
  request_kind :: nat

text \<open>How the promise \<^verbatim>\<open>blockUntilReady\<close> returned is settled by a response.\<close>

datatype settled = Resolved NDKUser | Rejected "string option"

text \<open>
  The callback of \<^verbatim>\<open>NDKUser.fromNip05(...).then\<close>, run when the lookup has resolved
  to \<open>user\<close>.
\<close>

definition fromNip05_then :: "NDKUser option \<Rightarrow> signer \<Rightarrow> signer" where
  "fromNip05_then user s =
     (case user of
        Some u \<Rightarrow> s\<lparr> remoteUser := u, remotePubkey := pubkey u \<rparr>
      | None \<Rightarrow> s)"

text \<open>
  \<^verbatim>\<open>blockUntilReady\<close> up to the promise it returns. The result is the actions done, in
  order, and either the error the call is rejected with or the pair the returned
  promise holds on to: the local public key and the remote user, made from
  \<^verbatim>\<open>this.remotePubkey\<close> at the start of the call.

  The promise of \<^verbatim>\<open>NDKUser.fromNip05\<close> is not awaited: the call only starts the lookup
  and registers the callback, which runs after the lookup has resolved, and so after
  the statements that follow in the same turn. The test of \<^verbatim>\<open>this.remotePubkey\<close> that
  follows therefore reads the field as it was.
\<close>

definition blockUntilReady ::
    "signer_env \<Rightarrow> signer \<Rightarrow> signer_action list \<times> (exn + string \<times> NDKUser)" where
  "blockUntilReady env s =
     (case local_user env of
        Inl e \<Rightarrow> ([], Inl e)
      | Inr localPubkey \<Rightarrow>
          (let remoteUser0 = \<lparr> pubkey = remotePubkey s \<rparr>;
               lookup = (if truthy_str (nip05 s) \<and> \<not> truthy_str (remotePubkey s)
                         then (case nip05 s of Some n \<Rightarrow> [FromNip05 n] | None \<Rightarrow> [])
                         else [])
           in if \<not> truthy_str (remotePubkey s)
              then (lookup, Inl (Error ''Remote pubkey not set''))
              else
                (case rpc_subscribe env of
                   Some e \<Rightarrow> (lookup @ [Subscribe [24133] [localPubkey]], Inl e)
                 | None \<Rightarrow>
                     (lookup @ [Subscribe [24133] [localPubkey], SetTimeout 100 localPubkey],
                      Inr (localPubkey, remoteUser0)))))"

text \<open>
  The callback of the timer, run on the signer as it is then: the parameters are the
  local public key and, if \<^verbatim>\<open>this.token\<close> is truthy, the token.
\<close>

definition connect_request :: "string \<Rightarrow> signer \<Rightarrow> rpc_request" where
  "connect_request localPubkey s =
     \<lparr> request_remote = remotePubkey s,
       request_method = ''connect'',
       request_params =
         (case token s of
            Some t \<Rightarrow> if t \<noteq> [] then [localPubkey, t] else [localPubkey]
          | None \<Rightarrow> [localPubkey]),
       request_kind = 24133 \<rparr>"

text \<open>The callback handed to \<^verbatim>\<open>rpc.sendRequest\<close>, run on the response.\<close>

definition connect_response :: "NDKUser \<Rightarrow> NDKRpcResponse \<Rightarrow> settled" where
  "connect_response remoteUser0 response =
     (if result response = ''ack'' then Resolved remoteUser0 else Rejected (error response))"

text \<open>
  Surroundings in which everything outside the signer succeeds: the identifier
  resolves to a user with a public key.
\<close>

definition working_signer_env :: signer_env where
  "working_signer_env =
     \<lparr> npub_decode = (\<lambda>npub. Inr ''remotepub''),
       local_user = Inr ''localpub'',
       rpc_subscribe = None,
       fromNip05 = (\<lambda>n. Some \<lparr> pubkey = Some ''remotepub'' \<rparr>) \<rparr>"

section \<open>Words of the specification and scenarios\<close>

text \<open>The specification's "contains the substring".\<close>

definition is_substring :: "string \<Rightarrow> string \<Rightarrow> bool" where
  "is_substring p t = (\<exists>a b. t = a @ p @ b)"

text \<open>
  A reconnect scheduled by \<open>handleReconnection attempt\<close> at time \<open>now\<close> with delay
  \<open>d\<close>, from state \<open>s\<close> to state \<open>s'\<close>: a new timer that fires \<open>d\<close> ms from now is
  the reconnect timer, \<^verbatim>\<open>delayed-connect\<close> is emitted with \<open>d\<close>, and
  \<^verbatim>\<open>nextReconnectAt\<close> is \<open>now + d\<close>.
\<close>

definition scheduled :: "conn \<Rightarrow> conn \<Rightarrow> nat \<Rightarrow> int \<Rightarrow> int \<Rightarrow> bool" where
  "scheduled s s' attempt now d =
     (timers s' = timers s @ [(next_timer s, now + d, ReconnectCallback attempt)] \<and>
      reconnectTimeout s' = Some (next_timer s) \<and>
      emitted s' = emitted s @ [EvDelayedConnect d] \<and>
      nextReconnectAt (connectionStats s') = Some (now + d))"

text \<open>
  A socket whose \<^verbatim>\<open>close()\<close> does not throw: it starts the closing handshake unless
  the socket is closed already.
\<close>

definition ws_close_ok :: "WebSocket \<Rightarrow> exn + WebSocket" where
  "ws_close_ok w =
     Inr (w\<lparr> readyState := (if readyState w = WS_CLOSED then WS_CLOSED else WS_CLOSING) \<rparr>)"

text \<open>Surroundings in which \<^verbatim>\<open>new WebSocket(url)\<close> always throws.\<close>

definition failing_env :: env where
  "failing_env =
     \<lparr> new_WebSocket = (\<lambda>now. Inl (Error ''connection refused'')),
       ws_close = ws_close_ok,
       matchFilters = (\<lambda>fs e. Inr True),
       sub_throws = (\<lambda>sid c. None),
       authPolicy = False,
       policy_settles = (\<lambda>challenge. Inr PolicyOther),
       has_signer = False,
       sign_auth_event = (\<lambda>challenge. Inl (Error ''no signer'')) \<rparr>"

text \<open>
  Surroundings in which \<^verbatim>\<open>new WebSocket(url)\<close> gives a socket that is connecting, and
  an authentication policy answers \<^verbatim>\<open>true\<close>.
\<close>

definition working_env :: env where
  "working_env =
     \<lparr> new_WebSocket = (\<lambda>now. Inr \<lparr> readyState = WS_CONNECTING, sent = [] \<rparr>),
       ws_close = ws_close_ok,
       matchFilters = (\<lambda>fs e. Inr True),
       sub_throws = (\<lambda>sid c. None),
       authPolicy = True,
       policy_settles = (\<lambda>challenge. Inr PolicyTrue),
       has_signer = False,
       sign_auth_event = (\<lambda>challenge. Inl (Error ''no signer'')) \<rparr>"

text \<open>
  Surroundings with a policy that answers \<^verbatim>\<open>true\<close> and a signer that signs, and in
  which \<^verbatim>\<open>matchFilters\<close> accepts the events of kind 1.
\<close>

definition signing_env :: env where
  "signing_env =
     \<lparr> new_WebSocket = (\<lambda>now. Inr \<lparr> readyState = WS_CONNECTING, sent = [] \<rparr>),
       ws_close = ws_close_ok,
       matchFilters = (\<lambda>fs e. Inr (e = Some (JObj [(''kind'', JNum 1)]))),
       sub_throws = (\<lambda>sid c. None),
       authPolicy = True,
       policy_settles = (\<lambda>challenge. Inr PolicyTrue),
       has_signer = True,
       sign_auth_event = (\<lambda>challenge. Inr \<lparr> event_id = ''A'', event_json = ''{}'' \<rparr>) \<rparr>"

text \<open>A connection that is connected since time 1000, with an open socket.\<close>

definition connected_conn :: conn where
  "connected_conn =
     new_conn\<lparr> ws := Some \<lparr> readyState = WS_OPEN, sent = [] \<rparr>, status := CONNECTED,
                connectionStats := \<lparr> attempts = 1, success = 1, durations = [],
                  stats_connectedAt = Some 1000, nextReconnectAt = None \<rparr> \<rparr>"

text \<open>
  A connected connection with the subscription \<open>s1\<close> for the events of kind 1 and the
  count request \<open>c1\<close>, whose promise is number 7.
\<close>

definition subscribed_conn :: conn where
  "subscribed_conn =
     connected_conn\<lparr>
       openSubs := [''s1'' \<mapsto> \<lparr> filters = [JObj [(''kinds'', JArr [JNum 1])]], sub_closed = False \<rparr>],
       openCountRequests := [''c1'' \<mapsto> 7],
       next_promise := 8 \<rparr>"

text \<open>A fresh connection that has recorded the sessions \<open>ds\<close>.\<close>

definition with_durations :: "int list \<Rightarrow> conn" where
  "with_durations ds =
     new_conn\<lparr> connectionStats := (connectionStats new_conn)\<lparr> durations := ds \<rparr> \<rparr>"

text \<open>
  An inbound frame that is an \<^verbatim>\<open>OK\<close> for the id \<open>k\<close>: its verb is \<^verbatim>\<open>"OK"\<close> and
  its second element is the string \<open>k\<close>.
\<close>

definition is_OK_for :: "string \<Rightarrow> json \<Rightarrow> bool" where
  "is_OK_for k data =
     (js_index data 0 = Inr (Some (JStr ''OK'')) \<and> js_at data 1 = Some (JStr k))"

definition is_OK_message_for :: "string \<Rightarrow> int \<times> json option \<Rightarrow> bool" where
  "is_OK_message_for k m = (case snd m of None \<Rightarrow> False | Some data \<Rightarrow> is_OK_for k data)"

text \<open>Messages handled one after the other, each at its time of arrival.\<close>

fun handle_all :: "env \<Rightarrow> (int \<times> json option) list \<Rightarrow> conn \<Rightarrow> conn" where
  "handle_all env [] s = s"
| "handle_all env (m # ms) s = handle_all env ms (fst (onMessage env (fst m) (snd m) s))"

text \<open>The inbound verbs, and a parsed message whose element 0 is one of them.\<close>

definition verbs :: "string list" where
  "verbs = [''EVENT'', ''COUNT'', ''EOSE'', ''OK'', ''CLOSED'', ''NOTICE'', ''AUTH'']"

definition has_verb :: "json \<Rightarrow> bool" where
  "has_verb data =
     (case js_index data 0 of
        Inr (Some (JStr v)) \<Rightarrow> v \<in> set verbs
      | _ \<Rightarrow> False)"

text \<open>
  A message is dropped: the handler returns without an exception and the connection is
  in the state it was in.
\<close>

definition dropped :: "env \<Rightarrow> int \<Rightarrow> json option \<Rightarrow> conn \<Rightarrow> bool" where
  "dropped env now message s = (onMessage env now message s = (s, None))"

section \<open>Theorems\<close>

subsection \<open>The flap detector\<close>

text \<open>
  The rounding at work: a tenth; the two ties next to \<open>2 ^ 53\<close>, which go to the even
  mantissa; the square root of 2; the special values; the first value that overflows;
  and a value below the smallest normal double.
\<close>

lemma rounding_scenarios:
  "round_double (1 / 10) = Finite (3602879701896397 / 36028797018963968) \<and>
   round_double (9007199254740993) = Finite 9007199254740992 \<and>
   round_double (9007199254740995) = Finite 9007199254740996 \<and>
   round_double (- (1 / 3)) = Finite (- (6004799503160661 / 18014398509481984)) \<and>
   fl_sqrt (Finite 2) = Finite (6369051672525773 / 4503599627370496) \<and>
   fl_sqrt (Finite 1000000) = Finite 1000 \<and>
   fl_div_length (Finite 0) 0 = NaN \<and>
   fl_div_length (Finite 5) 0 = PosInf \<and>
   fl_add PosInf NegInf = NaN \<and>
   fl_sub (Finite 1) (Finite (1 / 4)) = Finite (3 / 4) \<and>
   fl_square NegInf = PosInf \<and>
   \<not> fl_less NaN (Finite 1000) \<and> \<not> fl_less PosInf (Finite 1000) \<and> fl_less NegInf (Finite 1000)"
  by code_simp

lemma rounding_overflow:
  "round_double (of_int (2 ^ 1024 - 2 ^ 970)) = PosInf \<and>
   round_double (3 / of_int (2 ^ 1075)) = Finite (1 / of_int (2 ^ 1073))"
  by code_simp


lemma foldl_fl_add: "foldl (\<lambda>a b. fl_add a b) acc xs = fl_sum_from acc xs"
  by (induction xs arbitrary: acc) simp_all

lemma reduce_add_fl_sum: "reduce_add xs = fl_sum_from (Finite 0) xs"
  by (simp add: reduce_add_def foldl_fl_add)

lemma isFlapping_durations_rounded:
  "isFlapping_durations ds \<longleftrightarrow>
     length ds mod 3 = 0 \<and> fl_less (fl_population_stddev ds) (Finite 1000)"
  by (simp add: isFlapping_durations_def fl_population_stddev_def fl_mean_def
      reduce_add_fl_sum Let_def comp_def)

lemma fl_population_stddev_Nil: "fl_population_stddev [] = NaN"
  by (simp add: fl_population_stddev_def)

lemma isFlapping_durations_false:
  assumes "\<not> (0 < length ds \<and> length ds mod 3 = 0)"
  shows "\<not> isFlapping_durations ds"
proof (cases "length ds mod 3 = 0")
  case True
  with assms have "ds = []" by simp
  then show ?thesis
    by (simp add: isFlapping_durations_rounded fl_population_stddev_Nil)
next
  case False
  then show ?thesis by (simp add: isFlapping_durations_rounded)
qed

lemma isFlapping_durations_Nil: "\<not> isFlapping_durations []"
  by (simp add: isFlapping_durations_false)

lemma isFlapping_durations_scenario: "isFlapping_durations [500, 600, 550]"
  by code_simp




subsection \<open>The message handler returns\<close>

lemma onMessage_fst: "fst (onMessage env now m s) = fst (onMessage_try env now m s)"
  by (cases "onMessage_try env now m s") (simp add: onMessage_def split: option.splits)

lemma onMessage_snd: "snd (onMessage env now m s) = None"
  by (cases "onMessage_try env now m s") (simp add: onMessage_def split: option.splits)

subsection \<open>send\<close>

text \<open>
  Claim C2. For every state of the connection and every message, \<open>send\<close> hands the
  message to the socket exactly when the status is \<open>CONNECTED\<close> and the socket's
  \<open>readyState\<close> is \<open>OPEN\<close>; in every other state it fails with the error of a closed
  connection and leaves the state as it was: nothing is sent and nothing is kept for
  later.
\<close>

theorem send_contract:
  "(status s = CONNECTED \<and> (\<exists>w. ws s = Some w \<and> readyState w = WS_OPEN) \<longrightarrow>
      (\<exists>w. ws s = Some w \<and>
           send m s = (s\<lparr> ws := Some (w\<lparr> sent := sent w @ [m] \<rparr>) \<rparr>, None))) \<and>
   (\<not> (status s = CONNECTED \<and> (\<exists>w. ws s = Some w \<and> readyState w = WS_OPEN)) \<longrightarrow>
      send m s = (s, Some (Error ''Attempting to send on a closed relay connection'')))"
  by (cases "ws s") (simp_all add: send_def)

theorem send_contract_witness:
  "send ''m'' connected_conn =
     (connected_conn\<lparr> ws := Some \<lparr> readyState = WS_OPEN, sent = [''m''] \<rparr> \<rparr>, None) \<and>
   send ''m'' new_conn = (new_conn, Some (Error ''Attempting to send on a closed relay connection''))"
  using send_contract [of connected_conn "''m''"] send_contract [of new_conn "''m''"]
  by (simp add: connected_conn_def new_conn_def)

subsection \<open>The reconnect scheduler\<close>

lemma handleReconnection_scheduled:
  assumes "reconnectTimeout s = None" and "\<not> isFlapping s"
  shows "scheduled s (handleReconnection attempt now s) attempt now (reconnectDelay now s)"
proof -
  have "0 \<le> reconnectDelay now s"
    by (simp add: reconnectDelay_def split: option.splits)
  then show ?thesis
    using assms
    by (simp add: handleReconnection_def scheduled_def setTimeout_def emit_def Let_def max_def)
qed

lemma isFlapping_new_conn: "\<not> isFlapping new_conn"
  by (simp add: isFlapping_def new_conn_def isFlapping_durations_Nil)

text \<open>
  The two formulas of the delay, as \<open>handleReconnection\<close> has them, and the recording of
  a session: the list keeps the last 100.
\<close>

lemma reconnectDelay_branches:
  "(\<forall>t. connectedAt s = Some t \<and> t \<noteq> 0 \<longrightarrow> reconnectDelay now s = max 0 (60000 - (now - t))) \<and>
   (connectedAt s = None \<or> connectedAt s = Some 0 \<longrightarrow>
      reconnectDelay now s = 5000 * (int (attempts (connectionStats s)) + 1))"
  by (auto simp add: reconnectDelay_def)

lemma stats_disconnected_durations:
  assumes "stats_connectedAt (connectionStats s) = Some t" and "t \<noteq> 0"
  shows "durations (connectionStats (stats_disconnected now s)) =
           (if length (durations (connectionStats s)) < 100
            then durations (connectionStats s) @ [now - t]
            else tl (durations (connectionStats s) @ [now - t])) \<and>
         stats_connectedAt (connectionStats (stats_disconnected now s)) = None"
  using assms by (simp add: stats_disconnected_def Let_def)

lemma stats_disconnected_never_connected:
  assumes "stats_connectedAt (connectionStats s) = None"
  shows "stats_disconnected now s = s"
  using assms by (simp add: stats_disconnected_def Let_def)

text \<open>
  With the durations 500, 600, 550 recorded, \<open>handleReconnection\<close> sets the status to
  \<open>FLAPPING\<close>, emits \<open>flapping\<close> once and sets no timer.
\<close>

lemma flapping_scenario:
  "status (handleReconnection 0 now (with_durations [500, 600, 550])) = FLAPPING \<and>
   emitted (handleReconnection 0 now (with_durations [500, 600, 550])) =
     [EvFlapping (connectionStats (with_durations [500, 600, 550]))] \<and>
   timers (handleReconnection 0 now (with_durations [500, 600, 550])) = [] \<and>
   reconnectTimeout (handleReconnection 0 now (with_durations [500, 600, 550])) = None"
proof -
  have "isFlapping (with_durations [500, 600, 550])"
    by (simp add: isFlapping_def with_durations_def isFlapping_durations_scenario)
  then show ?thesis
    by (simp add: handleReconnection_def emit_def with_durations_def new_conn_def)
qed

text \<open>
  No operation of the class writes the field \<open>connectedAt\<close> that the delay reads (the
  time of the connection is kept in the statistics): in every state a connection can be
  in the field is unset and the delay is \<open>5000 * (attempts + 1)\<close>.
\<close>

lemma connectedAt_handleReconnection:
  "connectedAt (handleReconnection attempt now s) = connectedAt s"
  by (simp add: handleReconnection_def setTimeout_def emit_def Let_def split: option.splits)

lemma connectedAt_connect:
  "connectedAt (fst (connect env now tm reconnect s)) = connectedAt s"
  by (simp add: connect_def setTimeout_def clearTimeout_def emit_def stats_attempt_def Let_def
      connectedAt_handleReconnection split: option.splits sum.splits)

lemma connectedAt_drop_promise: "connectedAt (drop_promise r) = connectedAt (fst r)"
  by (simp add: drop_promise_def unhandled_rejection_def split: option.splits)

lemma connectedAt_socket_events:
  "connectedAt (onConnect now s) = connectedAt s"
  "connectedAt (onDisconnect now s) = connectedAt s"
  "connectedAt (disconnect env s) = connectedAt s"
  "connectedAt (onConnectionError reconnect now s) = connectedAt s"
  by (simp_all add: onConnect_def onDisconnect_def disconnect_def onConnectionError_def
      stats_connected_def stats_disconnected_def clearTimeout_def emit_def Let_def
      connectedAt_handleReconnection split: option.splits sum.splits)

lemma connectedAt_reconnect_callback:
  "connectedAt (reconnect_callback env attempt now s) = connectedAt s"
proof -
  have "connectedAt (fst (connect env now None True (s\<lparr> reconnectTimeout := None, status := RECONNECTING \<rparr>)))
      = connectedAt s"
    by (simp only: connectedAt_connect) simp
  then show ?thesis
    by (simp add: reconnect_callback_def setTimeout_def Let_def split_def split: option.splits)
qed

lemma connectedAt_fire_next: "connectedAt (fire_next env s) = connectedAt s"
  by (simp add: fire_next_def run_task_def clearTimeout_def connectedAt_connect
      connectedAt_handleReconnection connectedAt_reconnect_callback connectedAt_socket_events
      connectedAt_drop_promise split: option.splits prod.splits task.splits)

lemma connectedAt_send_publish:
  "connectedAt (fst (send m s)) = connectedAt s"
  "connectedAt (snd (publish event s)) = connectedAt s"
  "connectedAt (snd (auth event s)) = connectedAt s"
  by (simp_all add: send_def publish_def auth_def Let_def connectedAt_drop_promise
      split: option.splits)

lemma connectedAt_auth_turns:
  "connectedAt (snd (onAuthRequested env challenge s)) = connectedAt s"
  "connectedAt (snd (onAuthRequested_policy env challenge s)) = connectedAt s"
  "connectedAt (snd (onAuthRequested_signed env challenge s)) = connectedAt s"
  "connectedAt (onAuthRequested_settled outcome s) = connectedAt s"
  by (simp_all add: onAuthRequested_def onAuthRequested_policy_def onAuthRequested_signed_def
      onAuthRequested_settled_def authed_def emit_def unhandled_rejection_def
      connectedAt_send_publish split: sum.splits policy_result.splits settle.splits)

lemma connectedAt_onMessage: "connectedAt (fst (onMessage env now m s)) = connectedAt s"
proof -
  have "connectedAt (fst (onMessage_try env now m s)) = connectedAt s"
    by (simp add: onMessage_try_def onMessage_EVENT_def onMessage_COUNT_def onMessage_EOSE_def
        onMessage_OK_def onMessage_CLOSED_def onNotice_def call_sub_def connectedAt_auth_turns
        connectedAt_drop_promise
        setTimeout_def emit_def connectedAt_socket_events Let_def
        split: option.splits sum.splits bool.splits)
  then show ?thesis by (simp add: onMessage_fst)
qed

lemma reachable_connectedAt:
  assumes "s \<in> reachable env"
  shows "connectedAt s = None"
  using assms
proof (induction rule: reachable.induct)
  case reach_new
  show ?case by (simp add: new_conn_def)
qed (simp_all add: connectedAt_connect connectedAt_socket_events connectedAt_onMessage
      connectedAt_send_publish connectedAt_fire_next connectedAt_auth_turns)

lemma reachable_delay:
  assumes "s \<in> reachable env"
  shows "reconnectDelay now s = 5000 * (int (attempts (connectionStats s)) + 1)"
  using reachable_connectedAt [OF assms] by (simp add: reconnectDelay_def)

text \<open>
  Claim C4. A fresh connection: \<open>connect(5000)\<close> at time 0, the socket opens at time
  100 and closes at time 2100. The time of the connection, 100, is recorded in the
  statistics and cleared again when the session of 2000 ms is recorded; the field the
  delay reads was never set. The reconnect is scheduled with the other formula,
  \<open>5000 * (attempts + 1) = 10000\<close> ms, and not \<open>max 0 (60000 - (2100 - 100)) = 58000\<close>
  ms; \<open>delayed-connect\<close> carries 10000 and \<open>nextReconnectAt\<close> is 12100.
\<close>

theorem reconnect_delay_after_session:
  "stats_connectedAt (connectionStats
      (onConnect 100 (fst (connect working_env 0 (Some 5000) True new_conn)))) = Some 100 \<and>
   connectedAt (onConnect 100 (fst (connect working_env 0 (Some 5000) True new_conn))) = None \<and>
   durations (connectionStats
      (onDisconnect 2100 (onConnect 100 (fst (connect working_env 0 (Some 5000) True new_conn)))))
     = [2000] \<and>
   emitted (onDisconnect 2100 (onConnect 100 (fst (connect working_env 0 (Some 5000) True new_conn))))
     = [EvConnect, EvReady, EvDelayedConnect 10000, EvDisconnect] \<and>
   timers (onDisconnect 2100 (onConnect 100 (fst (connect working_env 0 (Some 5000) True new_conn))))
     = [(2, 12100, ReconnectCallback 0)] \<and>
   nextReconnectAt (connectionStats
      (onDisconnect 2100 (onConnect 100 (fst (connect working_env 0 (Some 5000) True new_conn)))))
     = Some 12100"
  by code_simp

subsection \<open>disconnect and the close event\<close>

lemma status_disconnect_cases:
  "status (disconnect env s) = DISCONNECTING \<or> status (disconnect env s) = DISCONNECTED"
  by (simp add: disconnect_def Let_def split: option.splits sum.splits)

lemma disconnect_keeps:
  "timers (disconnect env s) = timers s \<and> reconnectTimeout (disconnect env s) = reconnectTimeout s
   \<and> emitted (disconnect env s) = emitted s \<and> next_timer (disconnect env s) = next_timer s"
  by (simp add: disconnect_def Let_def split: option.splits sum.splits)

lemma onDisconnect_not_connected:
  assumes "status s \<noteq> CONNECTED"
  shows "status (onDisconnect now s) = status s \<and> timers (onDisconnect now s) = timers s \<and>
         reconnectTimeout (onDisconnect now s) = reconnectTimeout s"
  using assms
  by (simp add: onDisconnect_def stats_disconnected_def emit_def Let_def split: option.splits)

text \<open>
  Claim C6. With a socket whose \<open>close()\<close> does not throw, \<open>disconnect\<close> sets the
  status to \<open>DISCONNECTING\<close> from every state, and the socket's close event that
  follows schedules no reconnect; but it leaves the status at \<open>DISCONNECTING\<close>: the
  status does not become \<open>DISCONNECTED\<close>.
\<close>

theorem disconnect_then_close:
  "status (disconnect (env\<lparr> ws_close := ws_close_ok \<rparr>) s) = DISCONNECTING \<and>
   status (onDisconnect now (disconnect (env\<lparr> ws_close := ws_close_ok \<rparr>) s)) = DISCONNECTING \<and>
   timers (onDisconnect now (disconnect (env\<lparr> ws_close := ws_close_ok \<rparr>) s)) = timers s \<and>
   reconnectTimeout (onDisconnect now (disconnect (env\<lparr> ws_close := ws_close_ok \<rparr>) s)) =
     reconnectTimeout s"
proof -
  let ?e = "env\<lparr> ws_close := ws_close_ok \<rparr>"
  have a: "status (disconnect ?e s) = DISCONNECTING"
    by (simp add: disconnect_def ws_close_ok_def Let_def split: option.splits)
  then have "status (disconnect ?e s) \<noteq> CONNECTED" by simp
  from onDisconnect_not_connected [OF this, of now] a disconnect_keeps [of ?e s]
  show ?thesis by simp
qed

subsection \<open>Notices\<close>

lemma str_startsWith_iff: "str_startsWith t p \<longleftrightarrow> (\<exists>b. t = p @ b)"
  by (induction t p rule: str_startsWith.induct) auto

lemma str_includes_iff: "str_includes t p \<longleftrightarrow> is_substring p t"
proof (induction t)
  case Nil
  show ?case by (simp add: is_substring_def)
next
  case (Cons d t)
  have "is_substring p (d # t) \<longleftrightarrow> (\<exists>b. d # t = p @ b) \<or> is_substring p t"
  proof
    assume "is_substring p (d # t)"
    then obtain a b where ab: "d # t = a @ p @ b"
      unfolding is_substring_def by blast
    show "(\<exists>b. d # t = p @ b) \<or> is_substring p t"
    proof (cases a)
      case Nil
      with ab show ?thesis by auto
    next
      case (Cons x a')
      with ab have "t = a' @ p @ b" by simp
      then show ?thesis unfolding is_substring_def by blast
    qed
  next
    assume "(\<exists>b. d # t = p @ b) \<or> is_substring p t"
    then show "is_substring p (d # t)"
    proof
      assume "\<exists>b. d # t = p @ b"
      then obtain b where "d # t = [] @ p @ b" by auto
      then show ?thesis unfolding is_substring_def by blast
    next
      assume "is_substring p t"
      then obtain a b where "t = a @ p @ b" unfolding is_substring_def by blast
      then have "d # t = (d # a) @ p @ b" by simp
      then show ?thesis unfolding is_substring_def by blast
    qed
  qed
  with Cons show ?case
    by (simp only: str_includes.simps str_startsWith_iff)
qed

lemma complaining_string:
  "complaining (Some (JStr text)) =
     Inr (is_substring ''oo many'' text \<or> is_substring ''aximum'' text)"
  by (simp add: complaining_def js_includes_def str_includes_iff [symmetric] split: bool.splits)

lemma onMessage_NOTICE:
  "onMessage env now (Some (JArr (JStr ''NOTICE'' # v # rest))) s =
     (drop_promise (onNotice env now (Some v) s), None)"
  by (simp add: onMessage_def onMessage_try_def js_index_def js_at_def)

lemma disconnect_socket:
  "(ws s = None \<longrightarrow> ws (disconnect env s) = None \<and> status (disconnect env s) = DISCONNECTING) \<and>
   (\<forall>w w'. ws s = Some w \<and> ws_close env w = Inr w' \<longrightarrow>
      ws (disconnect env s) = Some w' \<and> status (disconnect env s) = DISCONNECTING) \<and>
   (\<forall>w e. ws s = Some w \<and> ws_close env w = Inl e \<longrightarrow>
      ws (disconnect env s) = Some w \<and> status (disconnect env s) = DISCONNECTED)"
  by (simp add: disconnect_def Let_def)

text \<open>
  Claim C7, as amended. For every inbound \<open>NOTICE\<close> frame whose second element is a
  string, the event \<open>notice\<close> is emitted with that text and nothing is thrown. Exactly
  when the text contains the substring "oo many" or the substring "aximum", the
  connection also disconnects: the status becomes \<open>DISCONNECTING\<close> and \<open>close()\<close> is
  called on the socket, if there is one (should \<open>close()\<close> throw, the status is
  \<open>DISCONNECTED\<close> and the socket is as it was); and a timer is set for 2000 ms later
  whose callback calls \<open>connect()\<close> with its default arguments. Otherwise the only
  effect is the event.
\<close>

theorem notice_handling:
  "emitted (fst (onMessage env now (Some (JArr (JStr ''NOTICE'' # JStr text # rest))) s)) =
     emitted s @ [EvNotice (Some (JStr text))] \<and>
   unhandled (fst (onMessage env now (Some (JArr (JStr ''NOTICE'' # JStr text # rest))) s)) =
     unhandled s \<and>
   (is_substring ''oo many'' text \<or> is_substring ''aximum'' text \<longrightarrow>
      timers (fst (onMessage env now (Some (JArr (JStr ''NOTICE'' # JStr text # rest))) s)) =
        timers s @ [(next_timer s, now + 2000, NoticeConnect)] \<and>
      (ws s = None \<longrightarrow>
         ws (fst (onMessage env now (Some (JArr (JStr ''NOTICE'' # JStr text # rest))) s)) = None \<and>
         status (fst (onMessage env now (Some (JArr (JStr ''NOTICE'' # JStr text # rest))) s)) =
           DISCONNECTING) \<and>
      (\<forall>w w'. ws s = Some w \<and> ws_close env w = Inr w' \<longrightarrow>
         ws (fst (onMessage env now (Some (JArr (JStr ''NOTICE'' # JStr text # rest))) s)) = Some w' \<and>
         status (fst (onMessage env now (Some (JArr (JStr ''NOTICE'' # JStr text # rest))) s)) =
           DISCONNECTING) \<and>
      (\<forall>w e. ws s = Some w \<and> ws_close env w = Inl e \<longrightarrow>
         ws (fst (onMessage env now (Some (JArr (JStr ''NOTICE'' # JStr text # rest))) s)) = Some w \<and>
         status (fst (onMessage env now (Some (JArr (JStr ''NOTICE'' # JStr text # rest))) s)) =
           DISCONNECTED)) \<and>
   (\<not> (is_substring ''oo many'' text \<or> is_substring ''aximum'' text) \<longrightarrow>
      fst (onMessage env now (Some (JArr (JStr ''NOTICE'' # JStr text # rest))) s) =
        emit (EvNotice (Some (JStr text))) s) \<and>
   run_task env due NoticeConnect x = drop_promise (connect env due None True x)"
proof (cases "is_substring ''oo many'' text \<or> is_substring ''aximum'' text")
  case True
  then have "complaining (Some (JStr text)) = Inr True"
    by (simp only: complaining_string)
  then have eq: "fst (onMessage env now (Some (JArr (JStr ''NOTICE'' # JStr text # rest))) s) =
      emit (EvNotice (Some (JStr text)))
        (snd (setTimeout now NoticeConnect (Some 2000) (disconnect env s)))"
    by (simp add: onMessage_NOTICE onNotice_def Let_def drop_promise_def)
  have keep: "timers (disconnect env s) = timers s \<and> next_timer (disconnect env s) = next_timer s \<and>
      emitted (disconnect env s) = emitted s \<and> unhandled (disconnect env s) = unhandled s"
    by (simp add: disconnect_def Let_def split: option.splits sum.splits)
  have sel: "ws (fst (onMessage env now (Some (JArr (JStr ''NOTICE'' # JStr text # rest))) s)) =
        ws (disconnect env s) \<and>
      status (fst (onMessage env now (Some (JArr (JStr ''NOTICE'' # JStr text # rest))) s)) =
        status (disconnect env s)"
    by (simp add: eq emit_def setTimeout_def)
  have rest: "emitted (fst (onMessage env now (Some (JArr (JStr ''NOTICE'' # JStr text # rest))) s)) =
        emitted s @ [EvNotice (Some (JStr text))] \<and>
      unhandled (fst (onMessage env now (Some (JArr (JStr ''NOTICE'' # JStr text # rest))) s)) =
        unhandled s \<and>
      timers (fst (onMessage env now (Some (JArr (JStr ''NOTICE'' # JStr text # rest))) s)) =
        timers s @ [(next_timer s, now + 2000, NoticeConnect)]"
    using keep by (simp add: eq emit_def setTimeout_def)
  have task: "run_task env due NoticeConnect x = drop_promise (connect env due None True x)"
    by (simp add: run_task_def)
  show ?thesis
    unfolding sel [THEN conjunct1] sel [THEN conjunct2]
    using True rest task disconnect_socket [of s env] by blast
next
  case False
  then have "complaining (Some (JStr text)) = Inr False"
    by (simp only: complaining_string)
  then have eq: "fst (onMessage env now (Some (JArr (JStr ''NOTICE'' # JStr text # rest))) s) =
      emit (EvNotice (Some (JStr text))) s"
    by (simp add: onMessage_NOTICE onNotice_def drop_promise_def)
  show ?thesis
    using False by (simp add: eq emit_def run_task_def)
qed

theorem notice_handling_witness:
  "timers (fst (onMessage failing_env 7 (Some (JArr [JStr ''NOTICE'', JStr ''Too many concurrent subs''])) connected_conn))
     = [(1, 2007, NoticeConnect)] \<and>
   status (fst (onMessage failing_env 7 (Some (JArr [JStr ''NOTICE'', JStr ''Too many concurrent subs''])) connected_conn))
     = DISCONNECTING \<and>
   ws (fst (onMessage failing_env 7 (Some (JArr [JStr ''NOTICE'', JStr ''Too many concurrent subs''])) connected_conn))
     = Some \<lparr> readyState = WS_CLOSING, sent = [] \<rparr> \<and>
   fst (onMessage failing_env 7 (Some (JArr [JStr ''NOTICE'', JStr ''hello''])) connected_conn)
     = emit (EvNotice (Some (JStr ''hello''))) connected_conn"
proof -
  have a: "is_substring ''oo many'' ''Too many concurrent subs''"
    by (simp add: str_includes_iff [symmetric])
  have b: "\<not> (is_substring ''oo many'' ''hello'' \<or> is_substring ''aximum'' ''hello'')"
    by (simp add: str_includes_iff [symmetric])
  have c: "ws connected_conn = Some \<lparr> readyState = WS_OPEN, sent = [] \<rparr> \<and>
           ws_close failing_env \<lparr> readyState = WS_OPEN, sent = [] \<rparr> =
             Inr \<lparr> readyState = WS_CLOSING, sent = [] \<rparr>"
    by (simp add: failing_env_def connected_conn_def ws_close_ok_def new_conn_def)
  have d: "timers connected_conn = [] \<and> next_timer connected_conn = 1"
    by (simp add: connected_conn_def new_conn_def)
  note T = notice_handling [of failing_env 7 "''Too many concurrent subs''" "[]" connected_conn]
  note U = notice_handling [of failing_env 7 "''hello''" "[]" connected_conn]
  from T a c d have
    "timers (fst (onMessage failing_env 7 (Some (JArr [JStr ''NOTICE'', JStr ''Too many concurrent subs''])) connected_conn))
       = [(1, 2007, NoticeConnect)] \<and>
     status (fst (onMessage failing_env 7 (Some (JArr [JStr ''NOTICE'', JStr ''Too many concurrent subs''])) connected_conn))
       = DISCONNECTING \<and>
     ws (fst (onMessage failing_env 7 (Some (JArr [JStr ''NOTICE'', JStr ''Too many concurrent subs''])) connected_conn))
       = Some \<lparr> readyState = WS_CLOSING, sent = [] \<rparr>"
    by simp
  moreover from U b have
    "fst (onMessage failing_env 7 (Some (JArr [JStr ''NOTICE'', JStr ''hello''])) connected_conn)
       = emit (EvNotice (Some (JStr ''hello''))) connected_conn"
    by simp
  ultimately show ?thesis by simp
qed

text \<open>
  Claim C7 as it was stated fails for a \<open>NOTICE\<close> frame that carries no text: for the
  frames \<open>["NOTICE"]\<close> and \<open>["NOTICE", 5]\<close> no event is emitted.
\<close>

theorem notice_without_text_counterexample:
  "emitted (fst (onMessage failing_env 7 (Some (JArr [JStr ''NOTICE''])) connected_conn)) = [] \<and>
   emitted (fst (onMessage failing_env 7 (Some (JArr [JStr ''NOTICE'', JNum 5])) connected_conn)) = []"
  by (simp add: onMessage_def onMessage_try_def onNotice_def complaining_def js_includes_def
      js_index_def js_at_def drop_promise_def unhandled_rejection_def connected_conn_def
      new_conn_def)

lemma fire_notice_timer:
  "attempts (connectionStats (fire_next failing_env
     (fst (onMessage failing_env 7 (Some (JArr [JStr ''NOTICE'', JStr ''Too many concurrent subs'']))
        connected_conn)))) = 2 \<and>
   unhandled (fire_next failing_env
     (fst (onMessage failing_env 7 (Some (JArr [JStr ''NOTICE'', JStr ''Too many concurrent subs'']))
        connected_conn))) = [Error ''connection refused'']"
  by code_simp

subsection \<open>Publishing and the OK frame\<close>

lemma publish_registers:
  assumes "publish event s = (p, s1)"
  shows "openEventPublishes s1 (event_id event) = Some p \<and> settle_calls s1 = settle_calls s"
  using assms
  by (auto simp add: publish_def send_def drop_promise_def unhandled_rejection_def Let_def
      split: option.splits if_splits)

lemma onMessage_OK_for:
  assumes "is_OK_for k data"
  shows "onMessage env now (Some data) s =
     (case openEventPublishes s k of
        None \<Rightarrow> (s, None)
      | Some ep \<Rightarrow>
          (s\<lparr> settle_calls :=
                settle_calls s @
                  [(ep, if truthy (js_at data 2) then Resolve (js_at data 3)
                        else RejectError (js_at data 3))],
              openEventPublishes := (openEventPublishes s)(k := None) \<rparr>, None))"
  using assms
  by (simp add: is_OK_for_def onMessage_def onMessage_try_def onMessage_OK_def map_get_def
      map_delete_def Let_def split: option.splits)

lemma onMessage_keeps_publish:
  assumes "\<not> is_OK_message_for k (now, m)"
  shows "openEventPublishes (fst (onMessage env now m s)) k = openEventPublishes s k"
proof (cases m)
  case None
  then show ?thesis by (simp add: onMessage_def onMessage_try_def)
next
  case (Some data)
  show ?thesis
  proof (cases "js_index data 0")
    case (Inl e)
    with Some show ?thesis by (simp add: onMessage_def onMessage_try_def)
  next
    case (Inr verb)
    have ev: "openEventPublishes (fst (onMessage_EVENT env data s)) k = openEventPublishes s k"
      by (simp add: onMessage_EVENT_def call_sub_def split: option.splits sum.splits bool.splits)
    have co: "openEventPublishes (fst (onMessage_COUNT data s)) k = openEventPublishes s k"
      by (simp add: onMessage_COUNT_def Let_def split: option.splits sum.splits)
    have eo: "openEventPublishes (fst (onMessage_EOSE env data s)) k = openEventPublishes s k"
      by (simp add: onMessage_EOSE_def call_sub_def split: option.splits)
    have cl: "openEventPublishes (fst (onMessage_CLOSED env data s)) k = openEventPublishes s k"
      by (simp add: onMessage_CLOSED_def call_sub_def Let_def split: option.splits)
    have no: "openEventPublishes (drop_promise (onNotice env now (js_at data 1) s)) k =
        openEventPublishes s k"
      by (simp add: onNotice_def disconnect_def setTimeout_def emit_def drop_promise_def
          unhandled_rejection_def Let_def split: option.splits sum.splits bool.splits)
    have au: "openEventPublishes (snd (onAuthRequested env (js_at data 1) s)) k =
        openEventPublishes s k"
      by (simp add: onAuthRequested_def emit_def)
    have ok: "verb = Some (JStr ''OK'') \<Longrightarrow>
        openEventPublishes (fst (onMessage_OK data s)) k = openEventPublishes s k"
    proof -
      assume v: "verb = Some (JStr ''OK'')"
      with assms Some Inr have "js_at data 1 \<noteq> Some (JStr k)"
        by (simp add: is_OK_message_for_def is_OK_for_def)
      then show ?thesis
        by (auto simp add: onMessage_OK_def map_get_def map_delete_def Let_def
            split: option.splits json.splits)
    qed
    have "openEventPublishes (fst (onMessage_try env now (Some data) s)) k = openEventPublishes s k"
      using Inr ev co eo cl no au ok
      by (simp add: onMessage_try_def)
    then show ?thesis
      using Some by (simp add: onMessage_fst)
  qed
qed

lemma handle_all_keeps_publish:
  assumes "list_all (\<lambda>m. \<not> is_OK_message_for k m) ms"
  shows "openEventPublishes (handle_all env ms s) k = openEventPublishes s k"
  using assms
proof (induction ms arbitrary: s)
  case Nil
  show ?case by simp
next
  case (Cons m ms)
  then have "\<not> is_OK_message_for k (fst m, snd m)" by simp
  from onMessage_keeps_publish [OF this] Cons show ?case by simp
qed

lemma handle_all_OK_unregistered:
  assumes "openEventPublishes s k = None" and "list_all (is_OK_message_for k) ms"
  shows "handle_all env ms s = s"
  using assms
proof (induction ms)
  case Nil
  show ?case by simp
next
  case (Cons m ms)
  then obtain data where d: "snd m = Some data" "is_OK_for k data"
    by (auto simp add: is_OK_message_for_def split: option.splits)
  from onMessage_OK_for [OF d(2), of env "fst m" s] Cons.prems(1) d(1)
  have "fst (onMessage env (fst m) (snd m) s) = s" by simp
  with Cons show ?case by simp
qed

text \<open>
  Claim C1. \<open>publish\<close> stores the functions of the promise it returns under the
  event's id. Whatever messages arrive before it that are not an \<open>OK\<close> for that id, the
  first \<open>OK\<close> frame for the id calls one of the two functions once, \<open>resolve\<close> with the
  reason when the frame's flag is true and \<open>reject\<close> with an error made of the reason
  when it is false, and removes the entry; every later \<open>OK\<close> frame for the same id
  leaves the connection as it is, so the functions are not called again.
\<close>

theorem publish_OK_settles_once:
  assumes "publish event s = (p, s1)"
    and "list_all (\<lambda>m. \<not> is_OK_message_for (event_id event) m) before"
    and "is_OK_for (event_id event) frame"
    and "list_all (is_OK_message_for (event_id event)) later"
  shows "openEventPublishes s1 (event_id event) = Some p \<and>
         onMessage env now (Some frame) (handle_all env before s1) =
           ((handle_all env before s1)
              \<lparr> settle_calls :=
                   settle_calls (handle_all env before s1) @
                     [(p, if truthy (js_at frame 2) then Resolve (js_at frame 3)
                          else RejectError (js_at frame 3))],
                 openEventPublishes :=
                   (openEventPublishes (handle_all env before s1))(event_id event := None) \<rparr>,
            None) \<and>
         handle_all env later (fst (onMessage env now (Some frame) (handle_all env before s1))) =
           fst (onMessage env now (Some frame) (handle_all env before s1))"
proof -
  let ?s = "handle_all env before s1"
  have reg: "openEventPublishes s1 (event_id event) = Some p"
    using publish_registers [OF assms(1)] by simp
  then have "openEventPublishes ?s (event_id event) = Some p"
    using handle_all_keeps_publish [OF assms(2), of env s1] by simp
  then have step: "onMessage env now (Some frame) ?s =
      (?s\<lparr> settle_calls := settle_calls ?s @
               [(p, if truthy (js_at frame 2) then Resolve (js_at frame 3)
                    else RejectError (js_at frame 3))],
           openEventPublishes := (openEventPublishes ?s)(event_id event := None) \<rparr>, None)"
    using onMessage_OK_for [OF assms(3), of env now ?s] by simp
  then have "openEventPublishes (fst (onMessage env now (Some frame) ?s)) (event_id event) = None"
    by simp
  from handle_all_OK_unregistered [OF this assms(4)] reg step
  show ?thesis by simp
qed


theorem publish_OK_settles_once_witness:
  "settle_calls
     (fst (onMessage failing_env 6 (Some (JArr [JStr ''OK'', JStr ''E'', JBool True, JStr ''stored'']))
        (handle_all failing_env [(5, Some (JArr [JStr ''OK'', JStr ''F'', JBool True, JStr ''x'']))]
           (snd (publish \<lparr> event_id = ''E'', event_json = ''{}'' \<rparr> new_conn))))) =
     [(0, Resolve (Some (JStr ''stored'')))] \<and>
   handle_all failing_env [(9, Some (JArr [JStr ''OK'', JStr ''E'', JBool False, JStr ''again'']))]
     (fst (onMessage failing_env 6 (Some (JArr [JStr ''OK'', JStr ''E'', JBool True, JStr ''stored'']))
        (handle_all failing_env [(5, Some (JArr [JStr ''OK'', JStr ''F'', JBool True, JStr ''x'']))]
           (snd (publish \<lparr> event_id = ''E'', event_json = ''{}'' \<rparr> new_conn))))) =
     fst (onMessage failing_env 6 (Some (JArr [JStr ''OK'', JStr ''E'', JBool True, JStr ''stored'']))
        (handle_all failing_env [(5, Some (JArr [JStr ''OK'', JStr ''F'', JBool True, JStr ''x'']))]
           (snd (publish \<lparr> event_id = ''E'', event_json = ''{}'' \<rparr> new_conn))))"
proof -
  let ?ev = "\<lparr> event_id = ''E'', event_json = ''{}'' \<rparr>"
  let ?before = "[(5 :: int, Some (JArr [JStr ''OK'', JStr ''F'', JBool True, JStr ''x'']))]"
  let ?later = "[(9 :: int, Some (JArr [JStr ''OK'', JStr ''E'', JBool False, JStr ''again'']))]"
  let ?frame = "JArr [JStr ''OK'', JStr ''E'', JBool True, JStr ''stored'']"
  let ?s1 = "snd (publish ?ev new_conn)"
  have p: "publish ?ev new_conn = (0, ?s1)"
    by (simp add: publish_def new_conn_def)
  have b: "list_all (\<lambda>m. \<not> is_OK_message_for (event_id ?ev) m) ?before"
    by (simp add: is_OK_message_for_def is_OK_for_def js_index_def js_at_def)
  have f: "is_OK_for (event_id ?ev) ?frame"
    by (simp add: is_OK_for_def js_index_def js_at_def)
  have l: "list_all (is_OK_message_for (event_id ?ev)) ?later"
    by (simp add: is_OK_message_for_def is_OK_for_def js_index_def js_at_def)
  have t: "truthy (js_at ?frame 2) \<and> js_at ?frame 3 = Some (JStr ''stored'')"
    by (simp add: js_index_def js_at_def)
  have h: "settle_calls (handle_all failing_env ?before ?s1) = []"
    by (simp add: publish_def send_def new_conn_def onMessage_def onMessage_try_def
        onMessage_OK_def js_index_def js_at_def map_get_def drop_promise_def
        unhandled_rejection_def Let_def)
  note T = publish_OK_settles_once [OF p b f l, of failing_env 6]
  have "settle_calls (fst (onMessage failing_env 6 (Some ?frame)
          (handle_all failing_env ?before ?s1))) = [(0, Resolve (Some (JStr ''stored'')))]"
    by (simp only: T [THEN conjunct2, THEN conjunct1] t h fst_conv if_True) simp
  with T [THEN conjunct2, THEN conjunct2] show ?thesis
    by (intro conjI)
qed

subsection \<open>What the message handler drops, and what escapes it\<close>

lemma dropped_no_verb:
  assumes "\<not> has_verb data"
  shows "dropped env now (Some data) s"
proof (cases "js_index data 0")
  case (Inl e)
  then show ?thesis by (simp add: dropped_def onMessage_def onMessage_try_def)
next
  case (Inr verb)
  with assms have "verb \<noteq> Some (JStr ''EVENT'') \<and> verb \<noteq> Some (JStr ''COUNT'') \<and>
      verb \<noteq> Some (JStr ''EOSE'') \<and> verb \<noteq> Some (JStr ''OK'') \<and>
      verb \<noteq> Some (JStr ''CLOSED'') \<and> verb \<noteq> Some (JStr ''NOTICE'') \<and>
      verb \<noteq> Some (JStr ''AUTH'')"
    by (auto simp add: has_verb_def verbs_def)
  with Inr show ?thesis by (simp add: dropped_def onMessage_def onMessage_try_def)
qed

lemma no_verb_primitives:
  "\<not> has_verb JNull" "\<not> has_verb (JBool b)" "\<not> has_verb (JNum q)" "\<not> has_verb (JStr t)"
  "\<not> has_verb (JArr [])"
  by (simp_all add: has_verb_def js_index_def verbs_def)

text \<open>
  The handler itself returns without an exception, and the frames that fail inside the
  \<open>try\<close> or match no verb are dropped: a message that is not JSON, a value that is no
  array (\<open>null\<close>, a boolean, a number, a string), an empty array, any value whose
  element 0 is none of the verbs, an \<open>EVENT\<close> frame whose id has no subscription and an
  \<open>OK\<close> frame whose id has no pending publish.
\<close>

lemma onMessage_drops_malformed:
  "snd (onMessage env now message s) = None \<and>
   dropped env now None s \<and>
   dropped env now (Some JNull) s \<and>
   dropped env now (Some (JBool b)) s \<and>
   dropped env now (Some (JNum q)) s \<and>
   dropped env now (Some (JStr t)) s \<and>
   dropped env now (Some (JArr [])) s \<and>
   (\<not> has_verb data \<longrightarrow> dropped env now (Some data) s) \<and>
   (js_index data 0 = Inr (Some (JStr ''EVENT'')) \<and> map_get (openSubs s) (js_at data 1) = None
      \<longrightarrow> dropped env now (Some data) s) \<and>
   (js_index data 0 = Inr (Some (JStr ''OK'')) \<and> map_get (openEventPublishes s) (js_at data 1) = None
      \<longrightarrow> dropped env now (Some data) s)"
proof (intro conjI impI)
  show "snd (onMessage env now message s) = None" by (rule onMessage_snd)
  show "dropped env now None s" by (simp add: dropped_def onMessage_def onMessage_try_def)
  show "dropped env now (Some JNull) s" by (rule dropped_no_verb) (rule no_verb_primitives)
  show "dropped env now (Some (JBool b)) s" by (rule dropped_no_verb) (rule no_verb_primitives)
  show "dropped env now (Some (JNum q)) s" by (rule dropped_no_verb) (rule no_verb_primitives)
  show "dropped env now (Some (JStr t)) s" by (rule dropped_no_verb) (rule no_verb_primitives)
  show "dropped env now (Some (JArr [])) s" by (rule dropped_no_verb) (rule no_verb_primitives)
  show "dropped env now (Some data) s" if "\<not> has_verb data"
    using that by (rule dropped_no_verb)
  show "dropped env now (Some data) s"
    if "js_index data 0 = Inr (Some (JStr ''EVENT'')) \<and> map_get (openSubs s) (js_at data 1) = None"
    using that by (simp add: dropped_def onMessage_def onMessage_try_def onMessage_EVENT_def)
  show "dropped env now (Some data) s"
    if "js_index data 0 = Inr (Some (JStr ''OK'')) \<and> map_get (openEventPublishes s) (js_at data 1) = None"
    using that by (simp add: dropped_def onMessage_def onMessage_try_def onMessage_OK_def Let_def)
qed

text \<open>
  Claim C10. A \<open>NOTICE\<close> frame without a text is not dropped: \<open>onNotice\<close> throws a
  \<open>TypeError\<close> on the missing text, and because the handler does not await the promise
  of \<open>onNotice\<close> its \<open>catch\<close> does not take it: the rejection is left unhandled, for
  \<open>["NOTICE"]\<close>, \<open>["NOTICE", 5]\<close> and \<open>["NOTICE", null]\<close>. In the same way an \<open>AUTH\<close>
  frame, with a policy that answers \<open>true\<close> and no signer, sets the status to
  \<open>AUTHENTICATING\<close> and, in the turn after the policy, leaves the error "No signer
  available for authentication" unhandled and the status where it is.
\<close>

theorem onMessage_unhandled_rejection:
  "onMessage failing_env 3 (Some (JArr [JStr ''NOTICE''])) connected_conn =
     (connected_conn\<lparr> unhandled := [TypeError] \<rparr>, None) \<and>
   onMessage failing_env 3 (Some (JArr [JStr ''NOTICE'', JNum 5])) connected_conn =
     (connected_conn\<lparr> unhandled := [TypeError] \<rparr>, None) \<and>
   onMessage failing_env 3 (Some (JArr [JStr ''NOTICE'', JNull])) connected_conn =
     (connected_conn\<lparr> unhandled := [TypeError] \<rparr>, None) \<and>
   onMessage working_env 3 (Some (JArr [JStr ''AUTH'', JStr ''c''])) connected_conn =
     (connected_conn\<lparr> status := AUTHENTICATING, policy_calls := [Some (JStr ''c'')] \<rparr>, None) \<and>
   onAuthRequested_policy working_env (Some (JStr ''c''))
     (connected_conn\<lparr> status := AUTHENTICATING, policy_calls := [Some (JStr ''c'')] \<rparr>) =
     (AuthDone,
      connected_conn\<lparr> status := AUTHENTICATING, policy_calls := [Some (JStr ''c'')],
        unhandled := [Error ''No signer available for authentication''] \<rparr>)"
  by (simp add: onMessage_def onMessage_try_def onNotice_def complaining_def js_includes_def
      js_index_def js_at_def drop_promise_def unhandled_rejection_def connected_conn_def
      new_conn_def onAuthRequested_def onAuthRequested_policy_def working_env_def)

subsection \<open>Reconnecting after a cold failure\<close>

text \<open>
  Claim C5. A fresh connection whose socket constructor always throws, \<open>connect()\<close>
  called at time 0, then the timers firing one after the other. The first call counts
  as an attempt, so the reconnect attempts are scheduled 10000, 15000, 20000, 25000 and
  30000 ms after the failure before them (not 5000 to 25000); the retry set by the
  \<open>catch\<close> after a failed reconnect fires \<open>1000 XOR 4 = 1004\<close> ms later and finds the
  next reconnect timer pending, which \<open>connect\<close> itself has set with attempt 0; and
  after the fifth reconnect attempt (the sixteenth timer) a sixth is pending, 35000 ms
  later.
\<close>

theorem reconnect_after_cold_failure:
  "emitted (run_timers failing_env 3 (fst (connect failing_env 0 None True new_conn))) =
     [EvDelayedConnect 10000, EvDelayedConnect 15000] \<and>
   timers (run_timers failing_env 3 (fst (connect failing_env 0 None True new_conn))) =
     [(4, 25000, ReconnectCallback 0), (5, 11004, RetryHandleReconnection 1)] \<and>
   emitted (run_timers failing_env 16 (fst (connect failing_env 0 None True new_conn))) =
     [EvDelayedConnect 10000, EvDelayedConnect 15000, EvDelayedConnect 20000,
      EvDelayedConnect 25000, EvDelayedConnect 30000, EvDelayedConnect 35000] \<and>
   attempts (connectionStats (run_timers failing_env 16 (fst (connect failing_env 0 None True new_conn)))) = 6 \<and>
   timers (run_timers failing_env 16 (fst (connect failing_env 0 None True new_conn))) =
     [(16, 135000, ReconnectCallback 0)] \<and>
   reconnectTimeout (run_timers failing_env 16 (fst (connect failing_env 0 None True new_conn))) = Some 16"
  by code_simp

text \<open>
  While the socket constructor throws and no session has been recorded, the callback of
  the reconnect timer leaves a reconnect timer pending, whatever its attempt number.
\<close>

lemma reconnect_callback_keeps_trying:
  assumes "\<And>t. \<exists>e. new_WebSocket env t = Inl e" and "durations (connectionStats s) = []"
  shows "reconnectTimeout (reconnect_callback env attempt now s) \<noteq> None \<and>
         durations (connectionStats (reconnect_callback env attempt now s)) = []"
proof -
  obtain e where e: "new_WebSocket env now = Inl e" using assms(1) by blast
  let ?s2 = "s\<lparr> reconnectTimeout := None, status := RECONNECTING \<rparr>"
  have c: "reconnectTimeout (fst (connect env now None True ?s2)) \<noteq> None \<and>
           durations (connectionStats (fst (connect env now None True ?s2))) = [] \<and>
           snd (connect env now None True ?s2) = Some e"
    using e assms(2)
    by (simp add: connect_def handleReconnection_def setTimeout_def clearTimeout_def emit_def
        stats_attempt_def isFlapping_def isFlapping_durations_Nil Let_def split: option.splits)
  then show ?thesis
    by (simp add: reconnect_callback_def setTimeout_def Let_def split_def)
qed

subsection \<open>The handshake of the remote signer\<close>

text \<open>
  Claim C8. With the remote public key known, \<open>blockUntilReady\<close> first opens the
  subscription for kind 24133 tagged with the local public key, then sets a timer of
  100 ms whose callback sends the request \<open>connect\<close> with the local public key and, when
  a token is stored (and not empty), the token; the promise resolves with the remote
  user exactly when the response's result is "ack", and is rejected with the
  response's error otherwise.
\<close>

theorem blockUntilReady_handshake:
  assumes "local_user env = Inr localPubkey"
    and "truthy_str (remotePubkey s)"
    and "rpc_subscribe env = None"
  shows "blockUntilReady env s =
           ([Subscribe [24133] [localPubkey], SetTimeout 100 localPubkey],
            Inr (localPubkey, \<lparr> pubkey = remotePubkey s \<rparr>)) \<and>
         request_method (connect_request localPubkey s) = ''connect'' \<and>
         request_remote (connect_request localPubkey s) = remotePubkey s \<and>
         request_kind (connect_request localPubkey s) = 24133 \<and>
         (\<forall>t. token s = Some t \<and> t \<noteq> [] \<longrightarrow>
            request_params (connect_request localPubkey s) = [localPubkey, t]) \<and>
         (\<not> truthy_str (token s) \<longrightarrow>
            request_params (connect_request localPubkey s) = [localPubkey]) \<and>
         (connect_response \<lparr> pubkey = remotePubkey s \<rparr> response = Resolved \<lparr> pubkey = remotePubkey s \<rparr>
            \<longleftrightarrow> result response = ''ack'') \<and>
         (result response \<noteq> ''ack'' \<longrightarrow>
            connect_response \<lparr> pubkey = remotePubkey s \<rparr> response = Rejected (error response))"
proof (intro conjI allI impI)
  show "blockUntilReady env s =
           ([Subscribe [24133] [localPubkey], SetTimeout 100 localPubkey],
            Inr (localPubkey, \<lparr> pubkey = remotePubkey s \<rparr>))"
    using assms by (simp add: blockUntilReady_def Let_def)
  show "request_params (connect_request localPubkey s) = [localPubkey]"
    if "\<not> truthy_str (token s)"
    using that by (cases "token s") (simp_all add: connect_request_def)
qed (simp_all add: connect_request_def connect_response_def)

theorem blockUntilReady_handshake_witness:
  "new_signer working_signer_env ''npub1abc#otp42'' =
     Inr (signer_fields (Some ''remotepub'') (Some ''otp42'') None) \<and>
   blockUntilReady working_signer_env (signer_fields (Some ''remotepub'') (Some ''otp42'') None) =
     ([Subscribe [24133] [''localpub''], SetTimeout 100 ''localpub''],
      Inr (''localpub'', \<lparr> pubkey = Some ''remotepub'' \<rparr>)) \<and>
   request_params (connect_request ''localpub'' (signer_fields (Some ''remotepub'') (Some ''otp42'') None)) =
     [''localpub'', ''otp42''] \<and>
   connect_response \<lparr> pubkey = Some ''remotepub'' \<rparr> \<lparr> response_id = ''1'', result = ''ack'', error = None \<rparr> =
     Resolved \<lparr> pubkey = Some ''remotepub'' \<rparr>"
proof -
  let ?s = "signer_fields (Some ''remotepub'') (Some ''otp42'') None"
  have c: "new_signer working_signer_env ''npub1abc#otp42'' = Inr ?s"
    by (simp add: new_signer_def working_signer_env_def part_def Let_def)
  have a: "local_user working_signer_env = Inr ''localpub''"
    by (simp add: working_signer_env_def)
  have b: "truthy_str (remotePubkey ?s)"
    by (simp add: signer_fields_def)
  have d: "rpc_subscribe working_signer_env = None"
    by (simp add: working_signer_env_def)
  have e: "remotePubkey ?s = Some ''remotepub'' \<and> token ?s = Some ''otp42''"
    by (simp add: signer_fields_def)
  show ?thesis
    using blockUntilReady_handshake [OF a b d,
        of "\<lparr> response_id = ''1'', result = ''ack'', error = None \<rparr>"] c e
    by simp
qed

lemma blockUntilReady_unset:
  assumes "local_user env = Inr localPubkey" and "remotePubkey s = None" and "nip05 s = Some n"
    and "n \<noteq> []"
  shows "blockUntilReady env s = ([FromNip05 n], Inl (Error ''Remote pubkey not set''))"
  using assms by (simp add: blockUntilReady_def Let_def)

text \<open>
  Claim C9. A signer made from the identifier "bob@example.com", in surroundings where
  the lookup of the identifier resolves to a user with a public key: \<open>blockUntilReady\<close>
  starts the lookup and fails with "Remote pubkey not set" all the same, before the
  lookup's callback has populated \<open>remotePubkey\<close>.
\<close>

theorem blockUntilReady_nip05_fails:
  "new_signer working_signer_env ''bob@example.com'' =
     Inr (signer_fields None None (Some ''bob@example.com'')) \<and>
   fromNip05 working_signer_env ''bob@example.com'' = Some \<lparr> pubkey = Some ''remotepub'' \<rparr> \<and>
   blockUntilReady working_signer_env (signer_fields None None (Some ''bob@example.com'')) =
     ([FromNip05 ''bob@example.com''], Inl (Error ''Remote pubkey not set'')) \<and>
   remotePubkey (fromNip05_then (fromNip05 working_signer_env ''bob@example.com'')
      (signer_fields None None (Some ''bob@example.com''))) = Some ''remotepub''"
  by (simp add: new_signer_def working_signer_env_def signer_fields_def blockUntilReady_def
      fromNip05_then_def Let_def)

subsection \<open>Scenarios\<close>

text \<open>
  The turns of the authentication: while the status is \<open>AUTHENTICATING\<close> the frame of
  \<open>auth\<close> is not sent, since \<open>send\<close> wants the status \<open>CONNECTED\<close>, and the rejection
  of \<open>send\<close> is left unhandled. Then the delivery of events, of the end of the stored
  events, of a close and of a count to their handles and promises, the first steps of
  \<open>connect\<close>, and the other forms of the signer's token.
\<close>

lemma auth_while_authenticating:
  assumes "status s = AUTHENTICATING"
  shows "auth event s =
     (next_promise s,
      s\<lparr> next_promise := Suc (next_promise s),
         openEventPublishes := (openEventPublishes s)(event_id event \<mapsto> next_promise s),
         unhandled := unhandled s @ [Error ''Attempting to send on a closed relay connection''] \<rparr>)"
  using assms
  by (simp add: auth_def send_def drop_promise_def unhandled_rejection_def Let_def
      split: option.splits)

lemma authentication_scenario:
  "onMessage signing_env 3 (Some (JArr [JStr ''AUTH'', JStr ''c''])) connected_conn =
     (connected_conn\<lparr> status := AUTHENTICATING, policy_calls := [Some (JStr ''c'')] \<rparr>, None) \<and>
   onAuthRequested_policy signing_env (Some (JStr ''c''))
     (connected_conn\<lparr> status := AUTHENTICATING, policy_calls := [Some (JStr ''c'')] \<rparr>) =
     (AwaitSign (Some (JStr ''c'')),
      connected_conn\<lparr> status := AUTHENTICATING, policy_calls := [Some (JStr ''c'')] \<rparr>) \<and>
   onAuthRequested_signed signing_env (Some (JStr ''c''))
     (connected_conn\<lparr> status := AUTHENTICATING, policy_calls := [Some (JStr ''c'')] \<rparr>) =
     (AwaitAuth 0,
      connected_conn\<lparr> status := AUTHENTICATING, policy_calls := [Some (JStr ''c'')],
        next_promise := 1, openEventPublishes := [''A'' \<mapsto> 0],
        unhandled := [Error ''Attempting to send on a closed relay connection''] \<rparr>) \<and>
   onAuthRequested_settled (Resolve (Some (JStr '''')))
     (connected_conn\<lparr> status := AUTHENTICATING \<rparr>) =
     connected_conn\<lparr> status := CONNECTED, emitted := [EvAuthed] \<rparr> \<and>
   onAuthRequested_settled (RejectError (Some (JStr ''restricted'')))
     (connected_conn\<lparr> status := AUTHENTICATING \<rparr>) =
     connected_conn\<lparr> status := AUTHENTICATING,
       unhandled := [ErrorOf (Some (JStr ''restricted''))] \<rparr> \<and>
   onMessage failing_env 3 (Some (JArr [JStr ''AUTH'', JStr ''c''])) connected_conn =
     (connected_conn\<lparr> emitted := [EvAuth (Some (JStr ''c''))] \<rparr>, None)"
  by (simp add: onMessage_def onMessage_try_def js_index_def js_at_def onAuthRequested_def
      onAuthRequested_policy_def onAuthRequested_signed_def onAuthRequested_settled_def
      authed_def auth_def send_def drop_promise_def unhandled_rejection_def emit_def
      signing_env_def failing_env_def connected_conn_def new_conn_def Let_def)

lemma subscription_scenario:
  "onMessage signing_env 3 (Some (JArr [JStr ''EVENT'', JStr ''s1'', JObj [(''kind'', JNum 1)]]))
     subscribed_conn =
     (subscribed_conn\<lparr> sub_calls := [(''s1'', Onevent (Some (JObj [(''kind'', JNum 1)])))] \<rparr>, None) \<and>
   onMessage signing_env 3 (Some (JArr [JStr ''EVENT'', JStr ''s1'', JObj [(''kind'', JNum 2)]]))
     subscribed_conn = (subscribed_conn, None) \<and>
   onMessage signing_env 3 (Some (JArr [JStr ''EOSE'', JStr ''s1''])) subscribed_conn =
     (subscribed_conn\<lparr> sub_calls := [(''s1'', ReceivedEose)] \<rparr>, None) \<and>
   onMessage signing_env 3 (Some (JArr [JStr ''EOSE'', JStr ''s2''])) subscribed_conn =
     (subscribed_conn, None) \<and>
   onMessage signing_env 3 (Some (JArr [JStr ''CLOSED'', JStr ''s1'', JStr ''rate-limited'']))
     subscribed_conn =
     (subscribed_conn\<lparr>
        openSubs := [''s1'' \<mapsto> \<lparr> filters = [JObj [(''kinds'', JArr [JNum 1])]], sub_closed = True \<rparr>],
        sub_calls := [(''s1'', Close (Some (JStr ''rate-limited'')))] \<rparr>, None) \<and>
   onMessage signing_env 3 (Some (JArr [JStr ''COUNT'', JStr ''c1'', JObj [(''count'', JNum 42)]]))
     subscribed_conn =
     (subscribed_conn\<lparr> openCountRequests := Map.empty, settle_calls := [(7, Resolve (Some (JNum 42)))] \<rparr>,
      None) \<and>
   onMessage signing_env 3 (Some (JArr [JStr ''COUNT'', JStr ''c1''])) subscribed_conn =
     (subscribed_conn, None)"
  by (simp add: onMessage_def onMessage_try_def js_index_def js_at_def js_prop_def
      onMessage_EVENT_def onMessage_EOSE_def onMessage_CLOSED_def onMessage_COUNT_def
      call_sub_def map_get_def map_delete_def key_of_def signing_env_def subscribed_conn_def
      connected_conn_def new_conn_def Let_def)

lemma connect_scenario:
  "fst (connect working_env 0 (Some 5000) True new_conn) =
     new_conn\<lparr> ws := Some \<lparr> readyState = WS_CONNECTING, sent = [] \<rparr>, status := CONNECTING,
       timeoutMs := Some 5000,
       connectionStats := (connectionStats new_conn)\<lparr> attempts := 1 \<rparr>,
       connectTimeout := Some 1, timers := [(1, 5000, OnConnectionError True)], next_timer := 2 \<rparr> \<and>
   snd (connect working_env 0 (Some 5000) True new_conn) = None \<and>
   emitted (fst (connect failing_env 0 None False new_conn)) = [EvDelayedConnect 172800000] \<and>
   snd (connect failing_env 0 None False new_conn) = Some (Error ''connection refused'') \<and>
   status (fst (connect working_env 9 None True connected_conn)) = RECONNECTING"
  by (simp add: connect_def setTimeout_def stats_attempt_def emit_def working_env_def
      failing_env_def connected_conn_def new_conn_def Let_def)

lemma new_signer_scenarios:
  "new_signer working_signer_env ''npub1abc'' = Inr (signer_fields (Some ''remotepub'') None None) \<and>
   new_signer working_signer_env ''ab12'' = Inr (signer_fields (Some ''ab12'') None None) \<and>
   new_signer working_signer_env ''npub1abc#'' =
     Inr (signer_fields (Some ''remotepub'') (Some '''') None) \<and>
   request_params (connect_request ''localpub'' (signer_fields (Some ''remotepub'') (Some '''') None)) =
     [''localpub''] \<and>
   connect_response \<lparr> pubkey = Some ''remotepub'' \<rparr>
     \<lparr> response_id = ''1'', result = ''no'', error = Some ''denied'' \<rparr> = Rejected (Some ''denied'')"
  by (simp add: new_signer_def working_signer_env_def part_def signer_fields_def
      connect_request_def connect_response_def Let_def)

lemma reconnect_callback_last_attempt:
  "timers (reconnect_callback failing_env 5 20 new_conn) =
     [(1, 20, OnConnectionError True), (2, 10020, ReconnectCallback 0)] \<and>
   timers (reconnect_callback failing_env 4 20 new_conn) =
     [(1, 20, OnConnectionError True), (2, 10020, ReconnectCallback 0),
      (3, 5024, RetryHandleReconnection 5)] \<and>
   status (reconnect_callback working_env 0 20 new_conn) = RECONNECTING \<and>
   timers (reconnect_callback working_env 0 20 new_conn) = [(1, 20, OnConnectionError True)]"
  by code_simp

lemma timeout_scenario:
  "timers (onConnectionError False 7 connected_conn) = [] \<and>
   timers (fst (connect working_env 9 None True (new_conn\<lparr> timeoutMs := Some 4000 \<rparr>))) =
     [(1, 4009, OnConnectionError True)] \<and>
   timeoutMs (fst (connect working_env 9 (Some 7000) True (new_conn\<lparr> timeoutMs := Some 4000 \<rparr>))) =
     Some 4000 \<and>
   timers (fst (connect working_env 9 (Some 7000) False (new_conn\<lparr> timeoutMs := Some 4000 \<rparr>))) =
     [(1, 4009, OnConnectionError False)] \<and>
   timers (fire_next working_env (fst (connect working_env 9 None True new_conn))) =
     [(2, 10009, ReconnectCallback 0)] \<and>
   status (fire_next working_env (fst (connect working_env 9 None True new_conn))) = CONNECTING"
  by code_simp

lemma publish_scenario:
  "publish \<lparr> event_id = ''E'', event_json = ''{}'' \<rparr> connected_conn =
     (0, connected_conn\<lparr> ws := Some \<lparr> readyState = WS_OPEN, sent = [''[\"EVENT\",{}]''] \<rparr>,
           openEventPublishes := [''E'' \<mapsto> 0], next_promise := 1 \<rparr>) \<and>
   publish \<lparr> event_id = ''E'', event_json = ''{}'' \<rparr> new_conn =
     (0, new_conn\<lparr> openEventPublishes := [''E'' \<mapsto> 0], next_promise := 1,
           unhandled := [Error ''Attempting to send on a closed relay connection''] \<rparr>)"
  by (simp add: publish_def send_def drop_promise_def unhandled_rejection_def connected_conn_def
      new_conn_def Let_def)

lemma loose_frames_scenario:
  "emitted (fst (onMessage failing_env 3
      (Some (JObj [(''0'', JStr ''NOTICE''), (''1'', JStr ''hello'')])) connected_conn)) =
     [EvNotice (Some (JStr ''hello''))] \<and>
   status (fst (onMessage failing_env 3
      (Some (JArr [JStr ''NOTICE'', JArr [JStr ''oo many'']])) connected_conn)) = DISCONNECTING \<and>
   settle_calls (fst (onMessage failing_env 3 (Some (JArr [JStr ''OK'', JStr ''E'', JNum 0, JStr ''no'']))
      (snd (publish \<lparr> event_id = ''E'', event_json = ''{}'' \<rparr> connected_conn)))) =
     [(0, RejectError (Some (JStr ''no'')))] \<and>
   settle_calls (fst (onMessage failing_env 3 (Some (JArr [JStr ''OK'', JStr ''E'']))
      (snd (publish \<lparr> event_id = ''E'', event_json = ''{}'' \<rparr> connected_conn)))) =
     [(0, RejectError None)]"
  by code_simp

lemma blockUntilReady_failures:
  "blockUntilReady (working_signer_env\<lparr> local_user := Inl (Error ''locked'') \<rparr>)
     (signer_fields (Some ''remotepub'') None None) = ([], Inl (Error ''locked'')) \<and>
   blockUntilReady (working_signer_env\<lparr> rpc_subscribe := Some (Error ''offline'') \<rparr>)
     (signer_fields (Some ''remotepub'') None None) =
     ([Subscribe [24133] [''localpub'']], Inl (Error ''offline'')) \<and>
   blockUntilReady working_signer_env (signer_fields None None None) =
     ([], Inl (Error ''Remote pubkey not set'')) \<and>
   fromNip05_then None (signer_fields None None (Some ''bob@example.com'')) =
     signer_fields None None (Some ''bob@example.com'') \<and>
   blockUntilReady working_signer_env
     (fromNip05_then (fromNip05 working_signer_env ''bob@example.com'')
        (signer_fields None None (Some ''bob@example.com''))) =
     ([Subscribe [24133] [''localpub''], SetTimeout 100 ''localpub''],
      Inr (''localpub'', \<lparr> pubkey = Some ''remotepub'' \<rparr>))"
  by (simp add: blockUntilReady_def working_signer_env_def signer_fields_def fromNip05_then_def
      Let_def)

end
